theory Spec2Isabelle
  imports Main "HOL-Library.Sublist"
begin

section \<open>Values, exceptions, statements and results\<close>

text \<open>
  The repository holds two modules that wrap one SQLAlchemy connection:
  \<^verbatim>\<open>src/pymlops/db/interface.py\<close> and \<^verbatim>\<open>src/db/interface.py\<close>, each with a class
  \<^verbatim>\<open>DBInterface\<close>. The methods of the first keep their names here; those of the
  second carry the prefix \<open>db_\<close>.

  SQLAlchemy and the database are not part of the repository. Every call the wrapper
  makes on them goes through a \<open>driver\<close>: a record of functions over the connection's
  state, which the wrapper's methods take as a parameter. Claims about what the
  wrapper does with whatever the driver answers are proved for every driver; claims
  about rows are proved on \<open>mem_driver\<close>, a store with SQLite's row identifiers and a
  single transaction, defined further down.
\<close>

text \<open>Python values that travel in row data, filters and result rows.\<close>

datatype val = PyNone | PyInt int | PyStr string

text \<open>Exceptions, by the name of their Python class.\<close>

datatype exn =
    NoSuchTableError string
  | AttributeError string
  | NameError string
  | TypeError
  | CompileError
  | IntegrityError
  | OperationalError
  | InvalidRequestError
  | ResourceClosedError
  | OverflowError
  | ProgrammingError
  | DriverError string

text \<open>
  The statements the wrapper builds. A filter is a list of \<open>(column, value)\<close> pairs,
  one equality each, joined by \<^verbatim>\<open>and_\<close>; \<open>TextClause\<close> is \<^verbatim>\<open>text(sql)\<close>.
\<close>

datatype stmt =
    Insert string "(string \<times> val) list"
  | Update string "(string \<times> val) list" "(string \<times> val) list"
  | Select string "string list" "(string \<times> val) list"
  | Delete string "(string \<times> val) list"
  | TextClause string

text \<open>
  What \<^verbatim>\<open>connection.execute\<close> hands back, as far as the wrapper looks at it:
  its truth value, whether it has an attribute \<^verbatim>\<open>fetchall\<close>, the rows a fetch
  delivers (or the exception it raises), and \<^verbatim>\<open>lastrowid\<close>.
\<close>

record result =
  truthy :: bool
  has_fetchall :: bool
  fetched :: "exn + val list list"
  lastrowid :: int

text \<open>What a method returns to its caller.\<close>

datatype retval =
    RNone
  | RInt int
  | RTuple "val list"
  | RRows "val list list"
  | RResult result

record 's driver =
  create_engine_connect :: "string \<Rightarrow> (string \<times> string) list \<Rightarrow> exn + 's"
  cursor_execute :: "string \<Rightarrow> 's \<Rightarrow> (exn + unit) \<times> 's"
  reflect :: "string \<Rightarrow> 's \<Rightarrow> exn + string list"
  conn_execute :: "stmt \<Rightarrow> 's \<Rightarrow> (exn + result) \<times> 's"
  conn_begin :: "'s \<Rightarrow> (exn + unit) \<times> 's"
  conn_commit :: "'s \<Rightarrow> (exn + unit) \<times> 's"
  conn_rollback :: "'s \<Rightarrow> (exn + unit) \<times> 's"
  conn_close :: "'s \<Rightarrow> (exn + unit) \<times> 's"

text \<open>
  The state a method runs in: the connection held in \<^verbatim>\<open>self.connection\<close> and the
  lines written to \<^verbatim>\<open>sys.stderr\<close> (one entry per \<^verbatim>\<open>print("Caught", e, ...)\<close>).
\<close>

record 's world =
  connection :: 's
  stderr :: "exn list"

type_synonym ('s, 'a) op = "'s world \<Rightarrow> (exn + 'a) \<times> 's world"

section \<open>Sequencing, raising and catching\<close>

definition ret :: "'a \<Rightarrow> ('s, 'a) op" where
  "ret a w = (Inr a, w)"

definition throw :: "exn \<Rightarrow> ('s, 'a) op" where
  "throw e w = (Inl e, w)"

definition seq :: "('s, 'a) op \<Rightarrow> ('a \<Rightarrow> ('s, 'b) op) \<Rightarrow> ('s, 'b) op" where
  "seq m f w = (case m w of (Inl e, w') \<Rightarrow> (Inl e, w') | (Inr a, w') \<Rightarrow> f a w')"

text \<open>\<^verbatim>\<open>try: m  except Exception as e: h e\<close>\<close>

definition try_except :: "('s, 'a) op \<Rightarrow> (exn \<Rightarrow> ('s, 'a) op) \<Rightarrow> ('s, 'a) op" where
  "try_except m h w = (case m w of (Inl e, w') \<Rightarrow> h e w' | (Inr a, w') \<Rightarrow> (Inr a, w'))"

text \<open>A call on the connection.\<close>

definition on_connection :: "('s \<Rightarrow> (exn + 'a) \<times> 's) \<Rightarrow> ('s, 'a) op" where
  "on_connection f w = (case f (connection w) of (r, s') \<Rightarrow> (r, w\<lparr>connection := s'\<rparr>))"

text \<open>A value or an exception that does not touch the state.\<close>

definition of_sum :: "exn + 'a \<Rightarrow> ('s, 'a) op" where
  "of_sum r w = (r, w)"

text \<open>
  A module-level name is looked up among the names the module binds
  (here: what its \<^verbatim>\<open>import\<close> lines bring in); an unbound name raises NameError.
\<close>

definition global_name :: "string list \<Rightarrow> string \<Rightarrow> ('s, unit) op" where
  "global_name globals n = (if n \<in> set globals then ret () else throw (NameError n))"

text \<open>\<^verbatim>\<open>print("Caught", e, file=sys.stderr)\<close> in a module with the given globals.\<close>

definition print_caught :: "string list \<Rightarrow> exn \<Rightarrow> ('s, unit) op" where
  "print_caught globals e =
     seq (global_name globals ''sys'') (\<lambda>_ w. (Inr (), w\<lparr>stderr := stderr w @ [e]\<rparr>))"

section \<open>Pieces shared by the methods\<close>

text \<open>\<^verbatim>\<open>t = Table(table, MetaData(), autoload_with=self.engine)\<close>: the columns \<^verbatim>\<open>t.c\<close>.\<close>

definition Table :: "'s driver \<Rightarrow> string \<Rightarrow> ('s, string list) op" where
  "Table D table w = (reflect D table (connection w), w)"

text \<open>\<^verbatim>\<open>getattr(t.c, key)\<close>\<close>

definition getattr_c :: "string list \<Rightarrow> string \<Rightarrow> exn + string" where
  "getattr_c c key = (if key \<in> set c then Inr key else Inl (AttributeError key))"

text \<open>
  \<^verbatim>\<open>
  conditions = []
  for key, value in kwargs.items():
      conditions.append(getattr(t.c, key) == value)
  \<close>
\<close>

fun conditions_of :: "string list \<Rightarrow> (string \<times> val) list \<Rightarrow> exn + (string \<times> val) list" where
  "conditions_of c [] = Inr []"
| "conditions_of c ((key, value) # kwargs) =
     (case getattr_c c key of
        Inl e \<Rightarrow> Inl e
      | Inr col \<Rightarrow>
          (case conditions_of c kwargs of
             Inl e \<Rightarrow> Inl e
           | Inr conditions \<Rightarrow> Inr ((col, value) # conditions)))"

text \<open>\<^verbatim>\<open>[getattr(t.c, col_name) for col_name in col_names]\<close>\<close>

fun getattrs_c :: "string list \<Rightarrow> string list \<Rightarrow> exn + string list" where
  "getattrs_c c [] = Inr []"
| "getattrs_c c (col_name # col_names) =
     (case getattr_c c col_name of
        Inl e \<Rightarrow> Inl e
      | Inr col \<Rightarrow>
          (case getattrs_c c col_names of
             Inl e \<Rightarrow> Inl e
           | Inr cols \<Rightarrow> Inr (col # cols)))"

definition fetchall :: "result \<Rightarrow> exn + val list list" where
  "fetchall res = fetched res"

definition fetchone :: "result \<Rightarrow> exn + val list option" where
  "fetchone res =
     (case fetched res of
        Inl e \<Rightarrow> Inl e
      | Inr [] \<Rightarrow> Inr None
      | Inr (r # _) \<Rightarrow> Inr (Some r))"

text \<open>\<^verbatim>\<open>tuple(x)\<close> for a row or None: None is not iterable.\<close>

definition tuple :: "val list option \<Rightarrow> exn + val list" where
  "tuple x = (case x of None \<Rightarrow> Inl TypeError | Some r \<Rightarrow> Inr r)"

text \<open>The truth value of a fetched row or None: a row is a sequence, false when empty.\<close>

definition row_truth :: "val list option \<Rightarrow> bool" where
  "row_truth x = (case x of None \<Rightarrow> False | Some r \<Rightarrow> r \<noteq> [])"

section \<open>src/pymlops/db/interface.py\<close>

text \<open>The names the module's import lines bind; \<^verbatim>\<open>import sys\<close> is its first line.\<close>

definition globals :: "string list" where
  "globals = [''sys'', ''List'', ''Dict'', ''create_engine'', ''select'', ''delete'',
     ''Column'', ''Integer'', ''String'', ''MetaData'', ''Table'', ''and_'', ''text'',
     ''sessionmaker'', ''declarative_base'', ''OperationalError'', ''IntegrityError'',
     ''SQLAlchemyError'']"

text \<open>
  \<^verbatim>\<open>__init__\<close>. \<^verbatim>\<open>create_engine\<close> returns an engine or raises, so the test
  \<^verbatim>\<open>self.engine is not None\<close> always passes and \<^verbatim>\<open>create_engine_connect\<close> stands
  for \<^verbatim>\<open>create_engine(...)\<close> followed by \<^verbatim>\<open>engine.connect()\<close>. The cursor of the raw
  connection is opened and closed around the four statements.
\<close>

definition init :: "'s driver \<Rightarrow> string \<Rightarrow> (string \<times> string) list \<Rightarrow> (exn + unit) \<times> 's world option" where
  "init D connection_string connect_args =
     (case create_engine_connect D connection_string connect_args of
        Inl e \<Rightarrow> (Inl e, None)
      | Inr s \<Rightarrow>
          (let w = \<lparr>connection = s, stderr = []\<rparr> in
           if sublist ''sqlite'' connection_string
           then (case seq (on_connection (cursor_execute D ''PRAGMA journal_mode=WAL;'')) (\<lambda>_.
                      seq (on_connection (cursor_execute D ''PRAGMA synchronous=NORMAL;'')) (\<lambda>_.
                      seq (on_connection (cursor_execute D ''PRAGMA wal_autocheckpoint=1000'')) (\<lambda>_.
                      on_connection (cursor_execute D ''PRAGMA foreign_keys=ON;'')))) w of
                   (r, w') \<Rightarrow> (r, Some w'))
           else (Inr (), Some w)))"

text \<open>The four statements \<^verbatim>\<open>__init__\<close> sends to the cursor, in its order.\<close>

definition tuning :: "string list" where
  "tuning = [''PRAGMA journal_mode=WAL;'', ''PRAGMA synchronous=NORMAL;'',
     ''PRAGMA wal_autocheckpoint=1000'', ''PRAGMA foreign_keys=ON;'']"

text \<open>
  A connection string names its dialect first, as in the two of \<^verbatim>\<open>viz/learn.py\<close>,
  \<^verbatim>\<open>sqlite:///...\<close> and \<^verbatim>\<open>mysql+mysqlconnector://...\<close>: the dialect is what stands
  before the first \<^verbatim>\<open>+\<close> or \<^verbatim>\<open>:\<close>.
\<close>

definition dialect_name :: "string \<Rightarrow> string" where
  "dialect_name url = takeWhile (\<lambda>ch. ch \<noteq> CHR ''+'' \<and> ch \<noteq> CHR '':'') url"

definition query :: "'s driver \<Rightarrow> string \<Rightarrow> ('s, retval) op" where
  "query D sql =
     seq (on_connection (conn_execute D (TextClause sql))) (\<lambda>result.
       if truthy result \<and> has_fetchall result
       then seq (of_sum (fetchall result)) (\<lambda>rows. ret (RRows rows))
       else ret RNone)"

definition prepare_insertion :: "'s driver \<Rightarrow> string \<Rightarrow> (string \<times> val) list \<Rightarrow> ('s, stmt) op" where
  "prepare_insertion D table data =
     seq (Table D table) (\<lambda>c.
       ret (Insert table (filter (\<lambda>(key, value). key \<in> set c) data)))"

definition insert_row :: "'s driver \<Rightarrow> string \<Rightarrow> (string \<times> val) list \<Rightarrow> ('s, retval) op" where
  "insert_row D table data =
     seq (prepare_insertion D table data) (\<lambda>ps.
     seq (on_connection (conn_execute D ps)) (\<lambda>result.
     seq (on_connection (conn_commit D)) (\<lambda>_.
       ret (RInt (lastrowid result)))))"

definition update_row ::
    "'s driver \<Rightarrow> string \<Rightarrow> (string \<times> val) list \<Rightarrow> bool \<Rightarrow> (string \<times> val) list \<Rightarrow> ('s, retval) op" where
  "update_row D table data atomic kwargs =
     seq (Table D table) (\<lambda>c.
     seq (of_sum (conditions_of c kwargs)) (\<lambda>conditions.
       let ps = Update table data conditions in
       if atomic
       then seq (try_except
                  (seq (on_connection (conn_execute D (TextClause ''BEGIN EXCLUSIVE''))) (\<lambda>_.
                   seq (on_connection (conn_execute D ps)) (\<lambda>_.
                     on_connection (conn_commit D))))
                  (\<lambda>e. seq (print_caught globals e) (\<lambda>_.
                     on_connection (conn_rollback D))))
              (\<lambda>_. ret RNone)
       else seq (on_connection (conn_execute D ps)) (\<lambda>_.
            seq (on_connection (conn_commit D)) (\<lambda>_.
              ret RNone))))"

definition aselect ::
    "'s driver \<Rightarrow> string \<Rightarrow> string \<Rightarrow> bool \<Rightarrow> (string \<times> val) list \<Rightarrow> ('s, retval) op" where
  "aselect D table col_name fetch_one kwargs =
     seq (Table D table) (\<lambda>c.
     seq (of_sum (conditions_of c kwargs)) (\<lambda>conditions.
     seq (of_sum (getattr_c c col_name)) (\<lambda>col.
     seq (on_connection (conn_execute D (Select table [col] conditions))) (\<lambda>res.
       if fetch_one
       then seq (of_sum (fetchone res)) (\<lambda>r.
              if row_truth r then seq (of_sum (tuple r)) (\<lambda>t. ret (RTuple t)) else ret RNone)
       else seq (of_sum (fetchall res)) (\<lambda>rows. ret (RRows rows))))))"

definition aselectn ::
    "'s driver \<Rightarrow> string \<Rightarrow> string list \<Rightarrow> bool \<Rightarrow> (string \<times> val) list \<Rightarrow> ('s, retval) op" where
  "aselectn D table col_names fetch_one kwargs =
     seq (Table D table) (\<lambda>c.
     seq (of_sum (conditions_of c kwargs)) (\<lambda>conditions.
     seq (of_sum (getattrs_c c col_names)) (\<lambda>cols.
     seq (on_connection (conn_execute D (Select table cols conditions))) (\<lambda>res.
       if fetch_one
       then seq (of_sum (fetchone res)) (\<lambda>r.
            seq (of_sum (tuple r)) (\<lambda>t. ret (RTuple t)))
       else seq (of_sum (fetchall res)) (\<lambda>rows. ret (RRows rows))))))"

text \<open>\<^verbatim>\<open>select(t).where()\<close>: every reflected column, no condition.\<close>

definition select_all :: "'s driver \<Rightarrow> string \<Rightarrow> ('s, retval) op" where
  "select_all D table =
     seq (Table D table) (\<lambda>c.
     seq (on_connection (conn_execute D (Select table c []))) (\<lambda>res.
     seq (of_sum (fetchall res)) (\<lambda>rows. ret (RRows rows))))"

definition remove :: "'s driver \<Rightarrow> string \<Rightarrow> string \<Rightarrow> val \<Rightarrow> ('s, retval) op" where
  "remove D table column_name column_value =
     seq (Table D table) (\<lambda>c.
     seq (of_sum (getattr_c c column_name)) (\<lambda>col.
     seq (on_connection (conn_execute D (Delete table [(col, column_value)]))) (\<lambda>_.
     seq (on_connection (conn_commit D)) (\<lambda>_.
       ret RNone))))"

definition removen :: "'s driver \<Rightarrow> string \<Rightarrow> (string \<times> val) list \<Rightarrow> ('s, retval) op" where
  "removen D table kwargs =
     seq (Table D table) (\<lambda>c.
     seq (of_sum (conditions_of c kwargs)) (\<lambda>conditions.
     seq (on_connection (conn_execute D (Delete table conditions))) (\<lambda>_.
     seq (on_connection (conn_commit D)) (\<lambda>_.
       ret RNone))))"

definition close :: "'s driver \<Rightarrow> ('s, retval) op" where
  "close D = seq (on_connection (conn_close D)) (\<lambda>_. ret RNone)"

section \<open>src/db/interface.py\<close>

text \<open>
  The names this module's import lines bind. It has no \<^verbatim>\<open>import sys\<close>, although
  \<^verbatim>\<open>update_row\<close> prints to \<^verbatim>\<open>sys.stderr\<close>.
\<close>

definition db_globals :: "string list" where
  "db_globals = [''List'', ''Dict'', ''create_engine'', ''select'', ''delete'',
     ''Column'', ''Integer'', ''String'', ''MetaData'', ''Table'', ''and_'', ''text'',
     ''sessionmaker'', ''declarative_base'', ''OperationalError'', ''IntegrityError'',
     ''SQLAlchemyError'']"

definition db_init :: "'s driver \<Rightarrow> string \<Rightarrow> (exn + unit) \<times> 's world option" where
  "db_init D connection_string =
     (case create_engine_connect D connection_string [] of
        Inl e \<Rightarrow> (Inl e, None)
      | Inr s \<Rightarrow> (Inr (), Some \<lparr>connection = s, stderr = []\<rparr>))"

definition db_query :: "'s driver \<Rightarrow> string \<Rightarrow> ('s, retval) op" where
  "db_query D sql =
     seq (on_connection (conn_execute D (TextClause sql))) (\<lambda>result.
       if truthy result \<and> has_fetchall result
       then seq (of_sum (fetchall result)) (\<lambda>rows. ret (RRows rows))
       else ret RNone)"

definition db_prepare_insertion :: "'s driver \<Rightarrow> string \<Rightarrow> (string \<times> val) list \<Rightarrow> ('s, stmt) op" where
  "db_prepare_insertion D table data =
     seq (Table D table) (\<lambda>c.
       ret (Insert table (filter (\<lambda>(key, value). key \<in> set c) data)))"

definition db_insert_row :: "'s driver \<Rightarrow> string \<Rightarrow> (string \<times> val) list \<Rightarrow> ('s, retval) op" where
  "db_insert_row D table data =
     seq (db_prepare_insertion D table data) (\<lambda>ps.
     seq (on_connection (conn_execute D ps)) (\<lambda>result.
     seq (on_connection (conn_commit D)) (\<lambda>_.
       ret (RInt (lastrowid result)))))"

text \<open>
  \<^verbatim>\<open>trans = self.connection.begin()\<close> stands before the \<^verbatim>\<open>try\<close>;
  \<^verbatim>\<open>trans.commit()\<close> and \<^verbatim>\<open>trans.rollback()\<close> end the connection's transaction.
\<close>

definition db_update_row ::
    "'s driver \<Rightarrow> string \<Rightarrow> (string \<times> val) list \<Rightarrow> bool \<Rightarrow> (string \<times> val) list \<Rightarrow> ('s, retval) op" where
  "db_update_row D table data atomic kwargs =
     seq (Table D table) (\<lambda>c.
     seq (of_sum (conditions_of c kwargs)) (\<lambda>conditions.
       let ps = Update table data conditions in
       if atomic
       then seq (on_connection (conn_begin D)) (\<lambda>trans.
            seq (try_except
                  (seq (on_connection (conn_execute D ps)) (\<lambda>_.
                     on_connection (conn_commit D)))
                  (\<lambda>e. seq (print_caught db_globals e) (\<lambda>_.
                     on_connection (conn_rollback D))))
              (\<lambda>_. ret RNone))
       else seq (on_connection (conn_execute D ps)) (\<lambda>_.
            seq (on_connection (conn_commit D)) (\<lambda>_.
              ret RNone))))"

definition db_aselect ::
    "'s driver \<Rightarrow> string \<Rightarrow> string \<Rightarrow> bool \<Rightarrow> (string \<times> val) list \<Rightarrow> ('s, retval) op" where
  "db_aselect D table col_name fetch_one kwargs =
     seq (Table D table) (\<lambda>c.
     seq (of_sum (conditions_of c kwargs)) (\<lambda>conditions.
     seq (of_sum (getattr_c c col_name)) (\<lambda>col.
     seq (on_connection (conn_execute D (Select table [col] conditions))) (\<lambda>res.
       if fetch_one
       then seq (of_sum (fetchone res)) (\<lambda>r.
              if row_truth r then seq (of_sum (tuple r)) (\<lambda>t. ret (RTuple t)) else ret RNone)
       else seq (of_sum (fetchall res)) (\<lambda>rows. ret (RRows rows))))))"

definition db_aselectn ::
    "'s driver \<Rightarrow> string \<Rightarrow> string list \<Rightarrow> bool \<Rightarrow> (string \<times> val) list \<Rightarrow> ('s, retval) op" where
  "db_aselectn D table col_names fetch_one kwargs =
     seq (Table D table) (\<lambda>c.
     seq (of_sum (conditions_of c kwargs)) (\<lambda>conditions.
     seq (of_sum (getattrs_c c col_names)) (\<lambda>cols.
     seq (on_connection (conn_execute D (Select table cols conditions))) (\<lambda>res.
       if fetch_one
       then seq (of_sum (fetchone res)) (\<lambda>r.
            seq (of_sum (tuple r)) (\<lambda>t. ret (RTuple t)))
       else seq (of_sum (fetchall res)) (\<lambda>rows. ret (RRows rows))))))"

definition db_select_all :: "'s driver \<Rightarrow> string \<Rightarrow> ('s, retval) op" where
  "db_select_all D table =
     seq (Table D table) (\<lambda>c.
     seq (on_connection (conn_execute D (Select table c []))) (\<lambda>res.
     seq (of_sum (fetchall res)) (\<lambda>rows. ret (RRows rows))))"

definition db_remove :: "'s driver \<Rightarrow> string \<Rightarrow> string \<Rightarrow> val \<Rightarrow> ('s, retval) op" where
  "db_remove D table column_name column_value =
     seq (Table D table) (\<lambda>c.
     seq (of_sum (getattr_c c column_name)) (\<lambda>col.
     seq (on_connection (conn_execute D (Delete table [(col, column_value)]))) (\<lambda>_.
     seq (on_connection (conn_commit D)) (\<lambda>_.
       ret RNone))))"

text \<open>This \<^verbatim>\<open>removen\<close> ends in \<^verbatim>\<open>return res\<close>.\<close>

definition db_removen :: "'s driver \<Rightarrow> string \<Rightarrow> (string \<times> val) list \<Rightarrow> ('s, retval) op" where
  "db_removen D table kwargs =
     seq (Table D table) (\<lambda>c.
     seq (of_sum (conditions_of c kwargs)) (\<lambda>conditions.
     seq (on_connection (conn_execute D (Delete table conditions))) (\<lambda>res.
     seq (on_connection (conn_commit D)) (\<lambda>_.
       ret (RResult res)))))"

definition db_close :: "'s driver \<Rightarrow> ('s, retval) op" where
  "db_close D = seq (on_connection (conn_close D)) (\<lambda>_. ret RNone)"

section \<open>A store to run the wrapper on\<close>

text \<open>
  \<open>mem_driver\<close> is a driver over tables held in memory. It follows SQLite as reached
  through SQLAlchemy in what the wrapper's results depend on:
  \<^item> a table has named columns; one of them (or SQLite's hidden \<^verbatim>\<open>rowid\<close>, when the
    name is not among the columns) holds the row identifier;
  \<^item> what a column makes of a value written to it is the table's own \<open>store_as\<close>: the
    value the column then holds and reads back (as given, or converted to the column's
    type), or the exception the write raises. It is a parameter of the table, since it
    depends on the declared types;
  \<^item> an INSERT stores the values so converted and NULL elsewhere; the row identifier is
    the integer stored for the identifier column, which must be unused, or else (nothing
    or NULL given) one more than the largest in the table, and is what \<^verbatim>\<open>lastrowid\<close>
    reports; an UPDATE with nothing to set is a syntax error;
  \<^item> a WHERE clause is the conjunction of its equalities (\<^verbatim>\<open>col == None\<close> is
    \<^verbatim>\<open>IS NULL\<close>), so the empty clause selects every row;
  \<^item> a statement that would break the store's constraints raises IntegrityError and
    changes no row; naming a column the table lacks raises CompileError;
  \<^item> the first INSERT, UPDATE or DELETE outside a transaction opens one; \<^verbatim>\<open>BEGIN\<close>
    inside a transaction fails; a commit keeps the rows unless the store refuses it
    (\<open>commit_error\<close>), rollback restores the rows the transaction started from;
  \<^item> the object \<^verbatim>\<open>execute\<close> returns is true and has \<^verbatim>\<open>fetchall\<close>, whatever the
    statement; fetching from the result of a statement that returns no rows raises
    ResourceClosedError;
  \<^item> connecting fails with the error \<open>refuses\<close> gives for the connection string, if any;
    the connection speaks the dialect the connection string names, and only a sqlite
    connection runs a \<^verbatim>\<open>PRAGMA\<close>: any other rejects it as a syntax error.
  Other SQL text is answered by the parameter \<open>raw\<close>.
\<close>

record table =
  columns :: "string list"
  rowid_column :: string
  store_as :: "string \<Rightarrow> val \<Rightarrow> exn + val"
  rows :: "(string \<Rightarrow> val) list"

record store =
  tables :: "string \<Rightarrow> table option"
  snapshot :: "(string \<Rightarrow> table option) option"
  constraints :: "(string \<Rightarrow> table option) \<Rightarrow> bool"
  commit_error :: "(string \<Rightarrow> table option) \<Rightarrow> exn option"
  dialect :: string
  refuses :: "string \<Rightarrow> exn option"
  directives :: "string list"

definition matches :: "(string \<times> val) list \<Rightarrow> (string \<Rightarrow> val) \<Rightarrow> bool" where
  "matches conditions r = list_all (\<lambda>(col, value). r col = value) conditions"

definition assign :: "(string \<times> val) list \<Rightarrow> (string \<Rightarrow> val) \<Rightarrow> (string \<Rightarrow> val)" where
  "assign data r = (\<lambda>col. case map_of data col of Some v \<Rightarrow> v | None \<Rightarrow> r col)"

text \<open>The values of a statement as the table's columns store them; the first write
  that raises ends the statement.\<close>

fun store_values :: "table \<Rightarrow> (string \<times> val) list \<Rightarrow> exn + (string \<times> val) list" where
  "store_values t [] = Inr []"
| "store_values t ((col, v) # vals) =
     (case store_as t col v of
        Inl e \<Rightarrow> Inl e
      | Inr v' \<Rightarrow>
          (case store_values t vals of
             Inl e \<Rightarrow> Inl e
           | Inr stored \<Rightarrow> Inr ((col, v') # stored)))"

fun rowids :: "string \<Rightarrow> (string \<Rightarrow> val) list \<Rightarrow> int list" where
  "rowids idc [] = []"
| "rowids idc (r # rs) = (case r idc of PyInt i \<Rightarrow> i # rowids idc rs | _ \<Rightarrow> rowids idc rs)"

definition next_rowid :: "int list \<Rightarrow> int" where
  "next_rowid ids = (case ids of [] \<Rightarrow> 1 | i # rest \<Rightarrow> fold max rest i + 1)"

definition dml_result :: "int \<Rightarrow> result" where
  "dml_result rid =
     \<lparr>truthy = True, has_fetchall = True, fetched = Inl ResourceClosedError, lastrowid = rid\<rparr>"

definition rows_result :: "val list list \<Rightarrow> result" where
  "rows_result rs = \<lparr>truthy = True, has_fetchall = True, fetched = Inr rs, lastrowid = 0\<rparr>"

definition implicit_begin :: "store \<Rightarrow> store" where
  "implicit_begin s = (case snapshot s of None \<Rightarrow> s\<lparr>snapshot := Some (tables s)\<rparr> | Some _ \<Rightarrow> s)"

definition write_tables :: "(string \<Rightarrow> table option) \<Rightarrow> result \<Rightarrow> store \<Rightarrow> (exn + result) \<times> store" where
  "write_tables new res s =
     (if constraints s new then (Inr res, (implicit_begin s)\<lparr>tables := new\<rparr>)
      else (Inl IntegrityError, implicit_begin s))"

text \<open>The identifier of a new row, from the values as stored: a text left in the
  identifier column is a datatype mismatch.\<close>

definition new_rowid :: "table \<Rightarrow> (string \<times> val) list \<Rightarrow> exn + int" where
  "new_rowid t stored =
     (let ids = rowids (rowid_column t) (rows t) in
      case map_of stored (rowid_column t) of
        Some (PyInt i) \<Rightarrow> if i \<in> set ids then Inl IntegrityError else Inr i
      | Some (PyStr _) \<Rightarrow> Inl IntegrityError
      | Some PyNone \<Rightarrow> Inr (next_rowid ids)
      | None \<Rightarrow> Inr (next_rowid ids))"

definition new_row :: "table \<Rightarrow> (string \<times> val) list \<Rightarrow> int \<Rightarrow> (string \<Rightarrow> val)" where
  "new_row t stored rid =
     (\<lambda>col. if col = rowid_column t then PyInt rid
            else case map_of stored col of Some v \<Rightarrow> v | None \<Rightarrow> PyNone)"

definition mem_insert :: "string \<Rightarrow> (string \<times> val) list \<Rightarrow> store \<Rightarrow> (exn + result) \<times> store" where
  "mem_insert table vals s =
     (case tables s table of
        None \<Rightarrow> (Inl (NoSuchTableError table), s)
      | Some t \<Rightarrow>
          if set (map fst vals) \<subseteq> set (columns t)
          then (case store_values t vals of
                  Inl e \<Rightarrow> (Inl e, implicit_begin s)
                | Inr stored \<Rightarrow>
                    (case new_rowid t stored of
                       Inl e \<Rightarrow> (Inl e, implicit_begin s)
                     | Inr rid \<Rightarrow>
                         write_tables
                           ((tables s)(table \<mapsto> t\<lparr>rows := rows t @ [new_row t stored rid]\<rparr>))
                           (dml_result rid) s))
          else (Inl CompileError, s))"

definition mem_update ::
    "string \<Rightarrow> (string \<times> val) list \<Rightarrow> (string \<times> val) list \<Rightarrow> store \<Rightarrow> (exn + result) \<times> store" where
  "mem_update table data conditions s =
     (case tables s table of
        None \<Rightarrow> (Inl (NoSuchTableError table), s)
      | Some t \<Rightarrow>
          if data = [] then (Inl OperationalError, s)
          else if set (map fst data) \<subseteq> set (columns t)
          then (case store_values t data of
                  Inl e \<Rightarrow> (Inl e, implicit_begin s)
                | Inr stored \<Rightarrow>
                    write_tables
                      ((tables s)(table \<mapsto>
                         t\<lparr>rows := map (\<lambda>r. if matches conditions r then assign stored r else r)
                                     (rows t)\<rparr>))
                      (dml_result 0) s)
          else (Inl CompileError, s))"

definition mem_delete :: "string \<Rightarrow> (string \<times> val) list \<Rightarrow> store \<Rightarrow> (exn + result) \<times> store" where
  "mem_delete table conditions s =
     (case tables s table of
        None \<Rightarrow> (Inl (NoSuchTableError table), s)
      | Some t \<Rightarrow>
          write_tables
            ((tables s)(table \<mapsto> t\<lparr>rows := filter (\<lambda>r. \<not> matches conditions r) (rows t)\<rparr>))
            (dml_result 0) s)"

definition mem_select ::
    "string \<Rightarrow> string list \<Rightarrow> (string \<times> val) list \<Rightarrow> store \<Rightarrow> (exn + result) \<times> store" where
  "mem_select table cols conditions s =
     (case tables s table of
        None \<Rightarrow> (Inl (NoSuchTableError table), s)
      | Some t \<Rightarrow>
          (Inr (rows_result (map (\<lambda>r. map r cols) (filter (matches conditions) (rows t)))), s))"

definition mem_begin :: "exn \<Rightarrow> store \<Rightarrow> (exn + unit) \<times> store" where
  "mem_begin e s =
     (case snapshot s of
        None \<Rightarrow> (Inr (), s\<lparr>snapshot := Some (tables s)\<rparr>)
      | Some _ \<Rightarrow> (Inl e, s))"

definition mem_commit :: "store \<Rightarrow> (exn + unit) \<times> store" where
  "mem_commit s =
     (case commit_error s (tables s) of
        Some e \<Rightarrow> (Inl e, s)
      | None \<Rightarrow> (Inr (), s\<lparr>snapshot := None\<rparr>))"

definition mem_rollback :: "store \<Rightarrow> (exn + unit) \<times> store" where
  "mem_rollback s =
     (case snapshot s of
        None \<Rightarrow> (Inr (), s)
      | Some old \<Rightarrow> (Inr (), s\<lparr>tables := old, snapshot := None\<rparr>))"

definition mem_execute ::
    "(string \<Rightarrow> store \<Rightarrow> (exn + result) \<times> store) \<Rightarrow> stmt \<Rightarrow> store \<Rightarrow> (exn + result) \<times> store" where
  "mem_execute raw st s =
     (case st of
        Insert table vals \<Rightarrow> mem_insert table vals s
      | Update table data conditions \<Rightarrow> mem_update table data conditions s
      | Select table cols conditions \<Rightarrow> mem_select table cols conditions s
      | Delete table conditions \<Rightarrow> mem_delete table conditions s
      | TextClause sql \<Rightarrow>
          if sql = ''BEGIN EXCLUSIVE''
          then (case mem_begin OperationalError s of
                  (Inl e, s') \<Rightarrow> (Inl e, s')
                | (Inr _, s') \<Rightarrow> (Inr (dml_result 0), s'))
          else raw sql s)"

definition mem_reflect :: "string \<Rightarrow> store \<Rightarrow> exn + string list" where
  "mem_reflect table s =
     (case tables s table of
        None \<Rightarrow> Inl (NoSuchTableError table)
      | Some t \<Rightarrow> Inr (columns t))"

definition mem_connect :: "store \<Rightarrow> string \<Rightarrow> (string \<times> string) list \<Rightarrow> exn + store" where
  "mem_connect file connection_string connect_args =
     (case refuses file connection_string of
        Some e \<Rightarrow> Inl e
      | None \<Rightarrow> Inr (file\<lparr>dialect := dialect_name connection_string\<rparr>))"

definition mem_cursor_execute ::
    "(string \<Rightarrow> store \<Rightarrow> (exn + result) \<times> store) \<Rightarrow> string \<Rightarrow> store \<Rightarrow> (exn + unit) \<times> store" where
  "mem_cursor_execute raw sql s =
     (if prefix ''PRAGMA '' sql
      then (if dialect s = ''sqlite'' then (Inr (), s\<lparr>directives := directives s @ [sql]\<rparr>)
            else (Inl ProgrammingError, s))
      else (case raw sql s of (Inl e, s') \<Rightarrow> (Inl e, s') | (Inr _, s') \<Rightarrow> (Inr (), s')))"

definition mem_driver ::
    "(string \<Rightarrow> store \<Rightarrow> (exn + result) \<times> store) \<Rightarrow> store \<Rightarrow> store driver" where
  "mem_driver raw file =
     \<lparr>create_engine_connect = mem_connect file,
      cursor_execute = mem_cursor_execute raw,
      reflect = mem_reflect,
      conn_execute = mem_execute raw,
      conn_begin = mem_begin InvalidRequestError,
      conn_commit = mem_commit,
      conn_rollback = mem_rollback,
      conn_close = (\<lambda>s. (Inr (), s))\<rparr>"

section \<open>The scenario of the specification\<close>

text \<open>
  The table of the scenario, with types:
  \<^verbatim>\<open>CREATE TABLE users (id INTEGER PRIMARY KEY, name TEXT, age INTEGER CHECK (age >= 0)) STRICT\<close>.
  A Python int outside 64 bits cannot be bound (OverflowError). \<^verbatim>\<open>name\<close> keeps a str and
  turns an int into its decimal text; \<^verbatim>\<open>id\<close> and \<^verbatim>\<open>age\<close> keep an int, turn a text that is a
  numeric literal with an integer value into that integer and reject any other text; NULL
  stays NULL.
\<close>

definition int64 :: "int \<Rightarrow> bool" where
  "int64 i = (- 9223372036854775808 \<le> i \<and> i \<le> 9223372036854775807)"

function decimal_nat :: "nat \<Rightarrow> string" where
  "decimal_nat n =
     (if n < 10 then [''0123456789'' ! n]
      else decimal_nat (n div 10) @ [''0123456789'' ! (n mod 10)])"
  by pat_completeness auto
termination
  by (relation "measure id") auto

declare decimal_nat.simps [simp del]

definition decimal :: "int \<Rightarrow> string" where
  "decimal i = (if i < 0 then CHR ''-'' # decimal_nat (nat (- i)) else decimal_nat (nat i))"

definition is_space :: "char \<Rightarrow> bool" where
  "is_space ch = (ch \<in> set [CHR 0x20, CHR 0x09, CHR 0x0A, CHR 0x0B, CHR 0x0C, CHR 0x0D])"

definition digit_value :: "char \<Rightarrow> int option" where
  "digit_value = map_of [(CHR ''0'', 0), (CHR ''1'', 1), (CHR ''2'', 2), (CHR ''3'', 3),
     (CHR ''4'', 4), (CHR ''5'', 5), (CHR ''6'', 6), (CHR ''7'', 7), (CHR ''8'', 8),
     (CHR ''9'', 9)]"

definition is_digit :: "char \<Rightarrow> bool" where
  "is_digit ch = (case digit_value ch of None \<Rightarrow> False | Some _ \<Rightarrow> True)"

definition number_of :: "string \<Rightarrow> int" where
  "number_of ds = fold (\<lambda>ch n. case digit_value ch of None \<Rightarrow> n | Some d \<Rightarrow> 10 * n + d) ds 0"

definition signed :: "string \<Rightarrow> bool \<times> string" where
  "signed s =
     (case s of
        [] \<Rightarrow> (False, [])
      | ch # r \<Rightarrow> if ch = CHR ''-'' then (True, r) else if ch = CHR ''+'' then (False, r)
                  else (False, s))"

text \<open>
  The integer a text stands for, when it is a numeric literal (blanks, sign, digits, an
  optional fraction, an optional exponent, blanks) whose value is an integer of 64 bits.
\<close>

definition fraction_part :: "string \<Rightarrow> string \<times> string" where
  "fraction_part r1 =
     (case r1 of
        [] \<Rightarrow> ([], [])
      | ch # r \<Rightarrow> if ch = CHR ''.'' then (takeWhile is_digit r, dropWhile is_digit r)
                  else ([], r1))"

definition exponent_digits :: "string \<Rightarrow> int option \<times> string" where
  "exponent_digits r =
     (case signed r of
        (eneg, r') \<Rightarrow>
          if takeWhile is_digit r' = [] then (None, r)
          else (Some (if eneg then - number_of (takeWhile is_digit r')
                      else number_of (takeWhile is_digit r')),
                dropWhile is_digit r'))"

definition exponent_part :: "string \<Rightarrow> int option \<times> string" where
  "exponent_part r2 =
     (case r2 of
        [] \<Rightarrow> (Some 0, [])
      | ch # r \<Rightarrow> if ch = CHR ''e'' \<or> ch = CHR ''E'' then exponent_digits r else (Some 0, r2))"

definition scaled :: "int \<Rightarrow> int \<Rightarrow> int option" where
  "scaled m k =
     (if 0 \<le> k then Some (m * 10 ^ nat k)
      else if m mod 10 ^ nat (- k) = 0 then Some (m div 10 ^ nat (- k))
      else None)"

definition literal_value :: "bool \<Rightarrow> string \<Rightarrow> string \<Rightarrow> int \<Rightarrow> int option" where
  "literal_value neg ip fp e =
     (case scaled (number_of (ip @ fp)) (e - int (length fp)) of
        None \<Rightarrow> None
      | Some v \<Rightarrow> if int64 (if neg then - v else v) then Some (if neg then - v else v)
                  else None)"

definition integer_of_text :: "string \<Rightarrow> int option" where
  "integer_of_text s =
     (let signed_rest = signed (dropWhile is_space s);
          ip = takeWhile is_digit (snd signed_rest);
          fraction_rest = fraction_part (dropWhile is_digit (snd signed_rest));
          exponent_rest = exponent_part (snd fraction_rest)
      in case fst exponent_rest of
           None \<Rightarrow> None
         | Some e \<Rightarrow>
             if ip @ fst fraction_rest = [] \<or> dropWhile is_space (snd exponent_rest) \<noteq> []
             then None
             else literal_value (fst signed_rest) ip (fst fraction_rest) e)"

definition text_column :: "val \<Rightarrow> exn + val" where
  "text_column v =
     (case v of
        PyNone \<Rightarrow> Inr PyNone
      | PyInt i \<Rightarrow> if int64 i then Inr (PyStr (decimal i)) else Inl OverflowError
      | PyStr s \<Rightarrow> Inr (PyStr s))"

definition integer_column :: "val \<Rightarrow> exn + val" where
  "integer_column v =
     (case v of
        PyNone \<Rightarrow> Inr PyNone
      | PyInt i \<Rightarrow> if int64 i then Inr (PyInt i) else Inl OverflowError
      | PyStr s \<Rightarrow> (case integer_of_text s of
                     None \<Rightarrow> Inl IntegrityError
                   | Some i \<Rightarrow> Inr (PyInt i)))"

definition users_store_as :: "string \<Rightarrow> val \<Rightarrow> exn + val" where
  "users_store_as col v = (if col = ''name'' then text_column v else integer_column v)"

text \<open>
  \<open>users_store rs\<close> holds the rows \<open>rs\<close> with no transaction open, \<open>users_world rs\<close> adds
  an empty \<open>stderr\<close>, and \<open>users_row 1 ''a'' 1\<close> is the row \<^verbatim>\<open>(1, "a", 1)\<close>. \<open>no_raw\<close> rejects
  every raw text.
\<close>

definition no_raw :: "string \<Rightarrow> store \<Rightarrow> (exn + result) \<times> store" where
  "no_raw sql s = (Inl OperationalError, s)"

text \<open>
  A \<open>raw\<close> for three texts: \<^verbatim>\<open>SELECT 1\<close> yields the row \<^verbatim>\<open>(1,)\<close>, and
  \<^verbatim>\<open>DELETE FROM users\<close> and \<^verbatim>\<open>UPDATE users SET age = 5\<close> do what the built statements
  without conditions do.
\<close>

definition users_raw :: "string \<Rightarrow> store \<Rightarrow> (exn + result) \<times> store" where
  "users_raw sql s =
     (if sql = ''SELECT 1'' then (Inr (rows_result [[PyInt 1]]), s)
      else if sql = ''DELETE FROM users'' then mem_delete ''users'' [] s
      else if sql = ''UPDATE users SET age = 5'' then mem_update ''users'' [(''age'', PyInt 5)] [] s
      else (Inl OperationalError, s))"

definition age_not_negative :: "(string \<Rightarrow> table option) \<Rightarrow> bool" where
  "age_not_negative ts =
     (case ts ''users'' of
        None \<Rightarrow> True
      | Some t \<Rightarrow> list_all (\<lambda>r. case r ''age'' of PyInt a \<Rightarrow> 0 \<le> a | _ \<Rightarrow> True) (rows t))"

definition users_row :: "int \<Rightarrow> string \<Rightarrow> int \<Rightarrow> (string \<Rightarrow> val)" where
  "users_row i n a =
     (\<lambda>col. if col = ''id'' then PyInt i else if col = ''name'' then PyStr n
            else if col = ''age'' then PyInt a else PyNone)"

definition users_table :: "(string \<Rightarrow> val) list \<Rightarrow> table" where
  "users_table rs =
     \<lparr>columns = [''id'', ''name'', ''age''], rowid_column = ''id'',
      store_as = users_store_as, rows = rs\<rparr>"

definition users_store :: "(string \<Rightarrow> val) list \<Rightarrow> store" where
  "users_store rs =
     \<lparr>tables = [''users'' \<mapsto> users_table rs], snapshot = None,
      constraints = age_not_negative, commit_error = (\<lambda>ts. None), dialect = ''sqlite'',
      refuses = (\<lambda>connection_string. None), directives = []\<rparr>"

definition users_world :: "(string \<Rightarrow> val) list \<Rightarrow> store world" where
  "users_world rs = \<lparr>connection = users_store rs, stderr = []\<rparr>"

text \<open>The same store when its commit fails, as on a full disk.\<close>

definition full_disk_world :: "(string \<Rightarrow> val) list \<Rightarrow> store world" where
  "full_disk_world rs =
     \<lparr>connection = (users_store rs)\<lparr>commit_error := (\<lambda>ts. Some OperationalError)\<rparr>,
      stderr = []\<rparr>"

section \<open>Unfolding the wrapper and the store\<close>

lemmas op_defs = ret_def throw_def seq_def try_except_def on_connection_def of_sum_def Table_def

lemmas mem_defs = mem_driver_def mem_reflect_def mem_execute_def mem_insert_def mem_update_def
  mem_delete_def mem_select_def mem_begin_def mem_commit_def mem_rollback_def write_tables_def
  implicit_begin_def dml_result_def rows_result_def mem_connect_def mem_cursor_execute_def

lemmas users_defs = users_world_def users_store_def users_table_def users_row_def
  age_not_negative_def no_raw_def users_raw_def full_disk_world_def users_store_as_def
  text_column_def integer_column_def int64_def

lemma conditions_of_ok:
  "fst ` set kwargs \<subseteq> set c \<Longrightarrow> conditions_of c kwargs = Inr kwargs"
  by (induction kwargs) (auto simp: getattr_c_def)

lemma getattrs_c_ok:
  "set col_names \<subseteq> set c \<Longrightarrow> getattrs_c c col_names = Inr col_names"
  by (induction col_names) (auto simp: getattr_c_def)

lemma filter_cols_idem:
  "filter (\<lambda>(key, value). key \<in> set c) (filter (\<lambda>(key, value). key \<in> set c) data) =
   filter (\<lambda>(key, value). key \<in> set c) data"
  by (induction data) auto

lemma keys_filter_cols:
  "set (map fst (filter (\<lambda>(key, value). key \<in> set c) data)) \<subseteq> set c"
  by (induction data) auto

lemma map_of_filter_cols:
  "map_of (filter (\<lambda>(key, value). key \<in> set c) data) col =
   (if col \<in> set c then map_of data col else None)"
  by (induction data) auto

text \<open>Each value of a statement is stored as its column stores it.\<close>

lemma store_values_map_of:
  "store_values t vals = Inr stored \<Longrightarrow> map_of vals col = Some v \<Longrightarrow>
   \<exists>v'. store_as t col v = Inr v' \<and> map_of stored col = Some v'"
proof (induction vals arbitrary: stored)
  case Nil
  then show ?case by simp
next
  case (Cons p vals)
  obtain k x where p: "p = (k, x)" by (cases p)
  from Cons.prems(1) p obtain x' rest where
    x: "store_as t k x = Inr x'" and rest: "store_values t vals = Inr rest"
    and stored: "stored = (k, x') # rest"
    by (auto split: sum.splits)
  show ?case
  proof (cases "k = col")
    case True
    with Cons.prems(2) p x stored show ?thesis by simp
  next
    case False
    with Cons.prems(2) p have "map_of vals col = Some v" by simp
    from Cons.IH[OF rest this] False stored show ?thesis by simp
  qed
qed

lemma store_values_keys:
  "store_values t vals = Inr stored \<Longrightarrow> map fst stored = map fst vals"
  by (induction vals arbitrary: stored) (auto split: sum.splits)

section \<open>Row identifiers are fresh\<close>

lemma fold_max_ge_init: "(a::int) \<le> fold max xs a"
  by (induction xs arbitrary: a) (auto intro: order_trans[OF max.cobounded2])

lemma fold_max_ge_elem: "x \<in> set xs \<Longrightarrow> (x::int) \<le> fold max xs a"
proof (induction xs arbitrary: a)
  case Nil
  then show ?case by simp
next
  case (Cons y ys)
  show ?case
  proof (cases "x = y")
    case True
    have "y \<le> max y a" by simp
    also have "\<dots> \<le> fold max ys (max y a)" by (rule fold_max_ge_init)
    finally show ?thesis using True by simp
  next
    case False
    with Cons show ?thesis by simp
  qed
qed

lemma next_rowid_fresh: "next_rowid ids \<notin> set ids"
proof (cases ids)
  case Nil
  then show ?thesis by simp
next
  case (Cons i rest)
  have "x \<le> fold max rest i" if "x \<in> set ids" for x
    using that Cons fold_max_ge_init[of i rest] fold_max_ge_elem[of x rest i] by auto
  then have "x < next_rowid ids" if "x \<in> set ids" for x
    using that Cons by (fastforce simp: next_rowid_def)
  then show ?thesis by blast
qed

lemma rowids_mem: "r \<in> set rs \<Longrightarrow> r idc = PyInt i \<Longrightarrow> i \<in> set (rowids idc rs)"
  by (induction rs) (auto split: val.splits)

lemma new_rowid_fresh:
  "new_rowid t stored = Inr rid \<Longrightarrow> r \<in> set (rows t) \<Longrightarrow> r (rowid_column t) \<noteq> PyInt rid"
  using next_rowid_fresh[of "rowids (rowid_column t) (rows t)"]
    rowids_mem[of r "rows t" "rowid_column t" rid]
  by (auto simp: new_rowid_def Let_def split: option.splits val.splits if_splits)

lemma filter_rowid_fresh:
  "new_rowid t stored = Inr rid \<Longrightarrow> filter (matches [(rowid_column t, PyInt rid)]) (rows t) = []"
  by (auto simp: filter_empty_conv matches_def dest: new_rowid_fresh)

text \<open>What a successful \<open>insert_row\<close> leaves behind: the row appended and committed.\<close>

lemma insert_row_mem:
  assumes "insert_row (mem_driver raw file) table d w = (Inr (RInt rid), w')"
    and "tables (connection w) table = Some t"
  shows "\<exists>stored.
           store_values t (filter (\<lambda>(key, value). key \<in> set (columns t)) d) = Inr stored
         \<and> new_rowid t stored = Inr rid
         \<and> w' = w\<lparr>connection := (connection w)\<lparr>tables := (tables (connection w))(table \<mapsto>
               t\<lparr>rows := rows t @ [new_row t stored rid]\<rparr>), snapshot := None\<rparr>\<rparr>"
  using assms keys_filter_cols[of "columns t" d]
  by (auto simp add: insert_row_def prepare_insertion_def op_defs mem_defs
      split: sum.splits if_splits option.splits)

lemma dialect_sqlite: "dialect_name cs = ''sqlite'' \<Longrightarrow> sublist ''sqlite'' cs"
proof -
  assume a: "dialect_name cs = ''sqlite''"
  have "cs = dialect_name cs @ dropWhile (\<lambda>ch. ch \<noteq> CHR ''+'' \<and> ch \<noteq> CHR '':'') cs"
    by (simp add: dialect_name_def)
  with a have "cs = [] @ ''sqlite'' @ dropWhile (\<lambda>ch. ch \<noteq> CHR ''+'' \<and> ch \<noteq> CHR '':'') cs"
    by simp
  then show ?thesis unfolding sublist_def by blast
qed

section \<open>Insert and select\<close>

text \<open>
  C1, as the code has it. After \<open>insert_row\<close> has returned the identifier \<open>rid\<close>,
  selecting any column that is both a key of \<open>d\<close> and a column of the table, filtered by
  the identifier column equal to \<open>rid\<close>, returns the one-element tuple of the value as
  the column stores it: the value \<open>d\<close> gave where the column keeps it as given, its
  conversion to the column's type otherwise, and the generated identifier for the
  identifier column when \<open>d\<close> gives None for it.
\<close>

theorem insert_then_select_by_rowid:
  assumes ins: "insert_row (mem_driver raw file) table d w = (Inr (RInt rid), w')"
    and t: "tables (connection w) table = Some t"
    and idc: "rowid_column t \<in> set (columns t)"
    and col: "col \<in> set (columns t)"
    and v: "map_of d col = Some v"
  shows "\<exists>v'. store_as t col v = Inr v'
       \<and> aselect (mem_driver raw file) table col True [(rowid_column t, PyInt rid)] w' =
           (Inr (RTuple [if col = rowid_column t \<and> v' = PyNone then PyInt rid else v']), w')"
proof -
  let ?vals = "filter (\<lambda>(key, value). key \<in> set (columns t)) d"
  from insert_row_mem[OF ins t] obtain stored where
    sv: "store_values t ?vals = Inr stored"
    and rid: "new_rowid t stored = Inr rid"
    and w': "w' = w\<lparr>connection := (connection w)\<lparr>tables := (tables (connection w))(table \<mapsto>
               t\<lparr>rows := rows t @ [new_row t stored rid]\<rparr>), snapshot := None\<rparr>\<rparr>"
    by blast
  have "map_of ?vals col = Some v"
    using col v by (simp add: map_of_filter_cols)
  from store_values_map_of[OF sv this] obtain v' where
    sa: "store_as t col v = Inr v'" and mv: "map_of stored col = Some v'"
    by blast
  have cell: "new_row t stored rid col = (if col = rowid_column t \<and> v' = PyNone then PyInt rid else v')"
  proof (cases "col = rowid_column t")
    case True
    with rid mv show ?thesis
      by (cases v') (auto simp: new_rowid_def new_row_def Let_def split: if_splits)
  next
    case False
    with mv show ?thesis by (simp add: new_row_def)
  qed
  have sel: "filter (matches [(rowid_column t, PyInt rid)]) (rows t @ [new_row t stored rid])
             = [new_row t stored rid]"
    using filter_rowid_fresh[OF rid] by (simp add: matches_def new_row_def)
  have "aselect (mem_driver raw file) table col True [(rowid_column t, PyInt rid)] w' =
           (Inr (RTuple [if col = rowid_column t \<and> v' = PyNone then PyInt rid else v']), w')"
    using idc col sel cell
    by (simp add: w' aselect_def op_defs mem_defs getattr_c_def fetchone_def row_truth_def
        tuple_def)
  with sa show ?thesis by blast
qed

text \<open>
  The scenario of the specification: into the empty \<^verbatim>\<open>users\<close>, insert
  \<^verbatim>\<open>{name: "a", age: 1}\<close>; the identifier is 1 and \<^verbatim>\<open>select(users, "name", id=1)\<close>
  gives \<^verbatim>\<open>("a",)\<close>.
\<close>

theorem insert_then_select_by_rowid_witness:
  "fst (insert_row (mem_driver no_raw (users_store [])) ''users''
          [(''name'', PyStr ''a''), (''age'', PyInt 1)] (users_world [])) = Inr (RInt 1)
   \<and> fst (aselect (mem_driver no_raw (users_store [])) ''users'' ''name'' True [(''id'', PyInt 1)]
          (snd (insert_row (mem_driver no_raw (users_store [])) ''users''
                  [(''name'', PyStr ''a''), (''age'', PyInt 1)] (users_world [])))) =
       Inr (RTuple [PyStr ''a''])"
proof -
  let ?M = "mem_driver no_raw (users_store [])"
  let ?d = "[(''name'', PyStr ''a''), (''age'', PyInt 1)]"
  let ?w' = "snd (insert_row ?M ''users'' ?d (users_world []))"
  have f: "fst (insert_row ?M ''users'' ?d (users_world [])) = Inr (RInt 1)"
    by (simp add: insert_row_def prepare_insertion_def op_defs mem_defs users_defs
        new_rowid_def next_rowid_def new_row_def)
  then have ins: "insert_row ?M ''users'' ?d (users_world []) = (Inr (RInt 1), ?w')"
    by (simp add: prod_eq_iff)
  have t: "tables (connection (users_world [])) ''users'' = Some (users_table [])"
    by (simp add: users_defs)
  have "\<exists>v'. store_as (users_table []) ''name'' (PyStr ''a'') = Inr v'
       \<and> aselect ?M ''users'' ''name'' True [(rowid_column (users_table []), PyInt 1)] ?w' =
          (Inr (RTuple [if ''name'' = rowid_column (users_table []) \<and> v' = PyNone
                        then PyInt 1 else v']), ?w')"
    by (rule insert_then_select_by_rowid[OF ins t]) (simp_all add: users_defs)
  then have "fst (aselect ?M ''users'' ''name'' True [(''id'', PyInt 1)] ?w') = Inr (RTuple [PyStr ''a''])"
    by (auto simp add: users_defs)
  with f show ?thesis by (rule conjI)
qed

text \<open>
  Where C1 as stated fails: the row data \<^verbatim>\<open>{id: None, name: 7}\<close> has both keys in the
  schema; selecting by the returned identifier gives \<^verbatim>\<open>(1,)\<close> for \<^verbatim>\<open>id\<close>, not
  \<^verbatim>\<open>(None,)\<close>, and \<^verbatim>\<open>('7',)\<close> for the TEXT column \<^verbatim>\<open>name\<close>, not \<^verbatim>\<open>(7,)\<close>.
\<close>

theorem insert_then_select_by_rowid_counterexample:
  "map_of [(''id'', PyNone), (''name'', PyInt 7)] ''id'' = Some PyNone
   \<and> map_of [(''id'', PyNone), (''name'', PyInt 7)] ''name'' = Some (PyInt 7)
   \<and> fst (insert_row (mem_driver no_raw (users_store [])) ''users''
          [(''id'', PyNone), (''name'', PyInt 7)] (users_world [])) = Inr (RInt 1)
   \<and> fst (aselect (mem_driver no_raw (users_store [])) ''users'' ''id'' True [(''id'', PyInt 1)]
          (snd (insert_row (mem_driver no_raw (users_store [])) ''users''
                  [(''id'', PyNone), (''name'', PyInt 7)] (users_world [])))) =
       Inr (RTuple [PyInt 1])
   \<and> fst (aselect (mem_driver no_raw (users_store [])) ''users'' ''name'' True [(''id'', PyInt 1)]
          (snd (insert_row (mem_driver no_raw (users_store [])) ''users''
                  [(''id'', PyNone), (''name'', PyInt 7)] (users_world [])))) =
       Inr (RTuple [PyStr ''7''])"
  by (simp add: insert_row_def prepare_insertion_def aselect_def op_defs mem_defs users_defs
      new_rowid_def next_rowid_def new_row_def matches_def getattr_c_def fetchone_def
      row_truth_def tuple_def decimal_def decimal_nat.simps)

text \<open>
  C5. Once the table is reflected, \<open>prepare_insertion\<close> builds the insert from exactly
  the pairs of \<open>data\<close> whose key is a column, and \<open>insert_row\<close> executes that statement,
  commits and returns its \<^verbatim>\<open>lastrowid\<close>; nothing in this depends on the other keys, so
  they cause no error. Both modules, every driver. On the store, the row a successful
  \<open>insert_row\<close> appends holds the remaining pairs as their columns store them and NULL at
  every key of \<open>data\<close> outside the schema.
\<close>

theorem insert_drops_unknown_keys:
  assumes "reflect D table (connection w) = Inr c"
  shows "prepare_insertion D table data w =
           (Inr (Insert table (filter (\<lambda>(key, value). key \<in> set c) data)), w)
       \<and> insert_row D table data w =
           seq (on_connection (conn_execute D
                  (Insert table (filter (\<lambda>(key, value). key \<in> set c) data)))) (\<lambda>result.
           seq (on_connection (conn_commit D)) (\<lambda>_.
             ret (RInt (lastrowid result)))) w
       \<and> db_prepare_insertion D table data w = prepare_insertion D table data w
       \<and> db_insert_row D table data w = insert_row D table data w
       \<and> (tables (connection u) table = Some t
            \<and> insert_row (mem_driver raw file) table data u = (Inr (RInt rid), u') \<longrightarrow>
          (\<exists>stored.
             store_values t (filter (\<lambda>(key, value). key \<in> set (columns t)) data) = Inr stored
           \<and> u' = u\<lparr>connection := (connection u)\<lparr>tables := (tables (connection u))(table \<mapsto>
                 t\<lparr>rows := rows t @ [new_row t stored rid]\<rparr>), snapshot := None\<rparr>\<rparr>
           \<and> (\<forall>key. key \<notin> set (columns t) \<and> key \<noteq> rowid_column t \<longrightarrow>
                  new_row t stored rid key = PyNone)))"
proof -
  have generic: "prepare_insertion D table data w =
           (Inr (Insert table (filter (\<lambda>(key, value). key \<in> set c) data)), w)
       \<and> insert_row D table data w =
           seq (on_connection (conn_execute D
                  (Insert table (filter (\<lambda>(key, value). key \<in> set c) data)))) (\<lambda>result.
           seq (on_connection (conn_commit D)) (\<lambda>_.
             ret (RInt (lastrowid result)))) w
       \<and> db_prepare_insertion D table data w = prepare_insertion D table data w
       \<and> db_insert_row D table data w = insert_row D table data w"
    using assms
    by (simp add: prepare_insertion_def insert_row_def db_prepare_insertion_def
        db_insert_row_def op_defs)
  have stored_row: "\<exists>stored.
             store_values t (filter (\<lambda>(key, value). key \<in> set (columns t)) data) = Inr stored
           \<and> u' = u\<lparr>connection := (connection u)\<lparr>tables := (tables (connection u))(table \<mapsto>
                 t\<lparr>rows := rows t @ [new_row t stored rid]\<rparr>), snapshot := None\<rparr>\<rparr>
           \<and> (\<forall>key. key \<notin> set (columns t) \<and> key \<noteq> rowid_column t \<longrightarrow>
                  new_row t stored rid key = PyNone)"
    if t: "tables (connection u) table = Some t"
      and ins: "insert_row (mem_driver raw file) table data u = (Inr (RInt rid), u')"
  proof -
    from insert_row_mem[OF ins t] obtain stored where
      sv: "store_values t (filter (\<lambda>(key, value). key \<in> set (columns t)) data) = Inr stored"
      and u': "u' = u\<lparr>connection := (connection u)\<lparr>tables := (tables (connection u))(table \<mapsto>
                 t\<lparr>rows := rows t @ [new_row t stored rid]\<rparr>), snapshot := None\<rparr>\<rparr>"
      by blast
    have "set (map fst stored) \<subseteq> set (columns t)"
      using store_values_keys[OF sv] keys_filter_cols[of "columns t" data] by simp
    then have "map_of stored key = None" if "key \<notin> set (columns t)" for key
      using that by (metis map_of_eq_None_iff set_map subsetD)
    then have "new_row t stored rid key = PyNone"
      if "key \<notin> set (columns t) \<and> key \<noteq> rowid_column t" for key
      using that by (simp add: new_row_def)
    with sv u' show ?thesis by blast
  qed
  from generic stored_row show ?thesis by blast
qed

text \<open>
  \<^verbatim>\<open>{name: "a", nickname: "x", age: 1}\<close> into the empty \<^verbatim>\<open>users(id, name, age)\<close>: the
  statement carries \<^verbatim>\<open>name\<close> and \<^verbatim>\<open>age\<close> only, the insert returns identifier 1 and the
  table then holds the row \<^verbatim>\<open>(1, "a", 1)\<close>, committed.
\<close>

theorem insert_drops_unknown_keys_witness:
  "reflect (mem_driver no_raw (users_store [])) ''users'' (connection (users_world [])) =
     Inr [''id'', ''name'', ''age'']
   \<and> prepare_insertion (mem_driver no_raw (users_store [])) ''users''
        [(''name'', PyStr ''a''), (''nickname'', PyStr ''x''), (''age'', PyInt 1)] (users_world []) =
      (Inr (Insert ''users'' [(''name'', PyStr ''a''), (''age'', PyInt 1)]), users_world [])
   \<and> insert_row (mem_driver no_raw (users_store [])) ''users''
        [(''name'', PyStr ''a''), (''nickname'', PyStr ''x''), (''age'', PyInt 1)] (users_world []) =
      (Inr (RInt 1), users_world [users_row 1 ''a'' 1])"
proof -
  let ?M = "mem_driver no_raw (users_store [])"
  let ?d = "[(''name'', PyStr ''a''), (''nickname'', PyStr ''x''), (''age'', PyInt 1)]"
  have r: "reflect ?M ''users'' (connection (users_world [])) = Inr [''id'', ''name'', ''age'']"
    by (simp add: mem_defs users_defs)
  note th = insert_drops_unknown_keys[OF r, of ?d]
  have p: "prepare_insertion ?M ''users'' ?d (users_world []) =
      (Inr (Insert ''users'' [(''name'', PyStr ''a''), (''age'', PyInt 1)]), users_world [])"
    using th by simp
  have row: "new_row (users_table []) [(''name'', PyStr ''a''), (''age'', PyInt 1)] 1 =
      users_row 1 ''a'' 1"
    by (auto simp add: new_row_def users_defs fun_eq_iff)
  have "insert_row ?M ''users'' ?d (users_world []) =
      seq (on_connection (conn_execute ?M
             (Insert ''users'' [(''name'', PyStr ''a''), (''age'', PyInt 1)]))) (\<lambda>result.
      seq (on_connection (conn_commit ?M)) (\<lambda>_. ret (RInt (lastrowid result)))) (users_world [])"
    using th by simp
  also have "\<dots> = (Inr (RInt 1), users_world [users_row 1 ''a'' 1])"
    using row
    by (simp add: op_defs mem_defs users_world_def users_store_def users_table_def
        age_not_negative_def users_store_as_def text_column_def integer_column_def int64_def
        new_rowid_def next_rowid_def users_row_def)
  finally have i: "insert_row ?M ''users'' ?d (users_world []) =
      (Inr (RInt 1), users_world [users_row 1 ''a'' 1])" .
  from r p i show ?thesis by blast
qed

section \<open>Filters\<close>

text \<open>
  C2. With no filter keyword arguments the condition list is empty and holds of every
  row. On a table of the store, \<open>update_row\<close> (non-atomic, the default) then assigns
  \<open>data\<close>, as its columns store it, in every row and commits, and \<open>removen\<close> leaves the
  table without rows and commits; each returns None. This is when the statement and its
  commit succeed: \<open>data\<close> is not empty and names columns of the table, which can store its
  values, and the store's constraints and commit accept the new rows.
\<close>

theorem empty_filter_touches_every_row:
  assumes "tables (connection w) table = Some t"
  shows "conditions_of (columns t) [] = Inr [] \<and> matches [] r
       \<and> (data \<noteq> [] \<and> set (map fst data) \<subseteq> set (columns t)
          \<and> store_values t data = Inr stored
          \<and> constraints (connection w)
              ((tables (connection w))(table \<mapsto> t\<lparr>rows := map (assign stored) (rows t)\<rparr>))
          \<and> commit_error (connection w)
              ((tables (connection w))(table \<mapsto> t\<lparr>rows := map (assign stored) (rows t)\<rparr>))
              = None \<longrightarrow>
          update_row (mem_driver raw file) table data False [] w =
            (Inr RNone, w\<lparr>connection := (connection w)\<lparr>tables := (tables (connection w))(table \<mapsto>
               t\<lparr>rows := map (assign stored) (rows t)\<rparr>), snapshot := None\<rparr>\<rparr>))
       \<and> (constraints (connection w) ((tables (connection w))(table \<mapsto> t\<lparr>rows := []\<rparr>))
          \<and> commit_error (connection w) ((tables (connection w))(table \<mapsto> t\<lparr>rows := []\<rparr>))
              = None \<longrightarrow>
          removen (mem_driver raw file) table [] w =
            (Inr RNone, w\<lparr>connection := (connection w)\<lparr>tables := (tables (connection w))(table \<mapsto>
               t\<lparr>rows := []\<rparr>), snapshot := None\<rparr>\<rparr>))"
  using assms
  by (auto simp add: update_row_def removen_def op_defs mem_defs matches_def split: option.splits)

text \<open>
  \<^verbatim>\<open>users\<close> with the rows \<^verbatim>\<open>(1, "a", 1)\<close> and \<^verbatim>\<open>(2, "b", 7)\<close>:
  \<^verbatim>\<open>update_row("users", {"age": 5})\<close> sets both ages to 5, and \<^verbatim>\<open>removen("users")\<close>
  empties the table.
\<close>

theorem empty_filter_touches_every_row_witness:
  "tables (connection (users_world [users_row 1 ''a'' 1, users_row 2 ''b'' 7])) ''users'' =
     Some (users_table [users_row 1 ''a'' 1, users_row 2 ''b'' 7])
   \<and> store_values (users_table [users_row 1 ''a'' 1, users_row 2 ''b'' 7]) [(''age'', PyInt 5)] =
       Inr [(''age'', PyInt 5)]
   \<and> update_row (mem_driver no_raw (users_store [])) ''users'' [(''age'', PyInt 5)] False []
        (users_world [users_row 1 ''a'' 1, users_row 2 ''b'' 7]) =
      (Inr RNone, users_world [assign [(''age'', PyInt 5)] (users_row 1 ''a'' 1),
                               assign [(''age'', PyInt 5)] (users_row 2 ''b'' 7)])
   \<and> assign [(''age'', PyInt 5)] (users_row 2 ''b'' 7) ''age'' = PyInt 5
   \<and> removen (mem_driver no_raw (users_store [])) ''users'' []
        (users_world [users_row 1 ''a'' 1, users_row 2 ''b'' 7]) = (Inr RNone, users_world [])"
proof -
  let ?rs = "[users_row 1 ''a'' 1, users_row 2 ''b'' 7]"
  have t: "tables (connection (users_world ?rs)) ''users'' = Some (users_table ?rs)"
    by (simp add: users_defs)
  have sv: "store_values (users_table ?rs) [(''age'', PyInt 5)] = Inr [(''age'', PyInt 5)]"
    by (simp add: users_defs)
  note th = empty_filter_touches_every_row[OF t, of _ "[(''age'', PyInt 5)]"
      "[(''age'', PyInt 5)]" no_raw "users_store []"]
  have u: "update_row (mem_driver no_raw (users_store [])) ''users'' [(''age'', PyInt 5)] False []
        (users_world ?rs) =
      (Inr RNone, users_world [assign [(''age'', PyInt 5)] (users_row 1 ''a'' 1),
                               assign [(''age'', PyInt 5)] (users_row 2 ''b'' 7)])"
    using th sv by (simp add: users_defs assign_def)
  have a: "assign [(''age'', PyInt 5)] (users_row 2 ''b'' 7) ''age'' = PyInt 5"
    by (simp add: assign_def)
  have d: "removen (mem_driver no_raw (users_store [])) ''users'' [] (users_world ?rs) =
      (Inr RNone, users_world [])"
    using th by (simp add: users_defs)
  from t sv u a d show ?thesis by blast
qed

text \<open>
  C6. On a table of the store, with \<open>col_name\<close> and the filter keys among its columns and
  no row matching the filter, \<open>aselect\<close> with \<open>fetch_one\<close> returns None and leaves the
  state as it was. Both modules.
\<close>

theorem aselect_no_match_returns_None:
  assumes "tables (connection w) table = Some t"
    and "col_name \<in> set (columns t)"
    and "fst ` set kwargs \<subseteq> set (columns t)"
    and "filter (matches kwargs) (rows t) = []"
  shows "aselect (mem_driver raw file) table col_name True kwargs w = (Inr RNone, w)
       \<and> db_aselect (mem_driver raw file) table col_name True kwargs w = (Inr RNone, w)"
  using assms
  by (simp add: aselect_def db_aselect_def op_defs mem_defs conditions_of_ok getattr_c_def
      fetchone_def row_truth_def)

text \<open>\<^verbatim>\<open>aselect("users", "name", id=2)\<close> when the only row has \<^verbatim>\<open>id\<close> 1.\<close>

theorem aselect_no_match_returns_None_witness:
  "filter (matches [(''id'', PyInt 2)]) (rows (users_table [users_row 1 ''a'' 1])) = []
   \<and> aselect (mem_driver no_raw (users_store [])) ''users'' ''name'' True [(''id'', PyInt 2)]
        (users_world [users_row 1 ''a'' 1]) = (Inr RNone, users_world [users_row 1 ''a'' 1])
   \<and> db_aselect (mem_driver no_raw (users_store [])) ''users'' ''name'' True [(''id'', PyInt 2)]
        (users_world [users_row 1 ''a'' 1]) = (Inr RNone, users_world [users_row 1 ''a'' 1])"
proof -
  let ?rs = "[users_row 1 ''a'' 1]"
  have t: "tables (connection (users_world ?rs)) ''users'' = Some (users_table ?rs)"
    by (simp add: users_defs)
  have c: "''name'' \<in> set (columns (users_table ?rs))"
    by (simp add: users_defs)
  have k: "fst ` set [(''id'', PyInt 2)] \<subseteq> set (columns (users_table ?rs))"
    by (simp add: users_defs)
  have m: "filter (matches [(''id'', PyInt 2)]) (rows (users_table ?rs)) = []"
    by (simp add: users_defs matches_def)
  from m aselect_no_match_returns_None[OF t c k m, of no_raw "users_store []"]
  show ?thesis by blast
qed

text \<open>
  C10. In the same situation \<open>aselectn\<close> with \<open>fetch_one\<close> raises: \<^verbatim>\<open>fetchone()\<close> gives
  None and \<^verbatim>\<open>tuple(None)\<close> is a TypeError. Both modules.
\<close>

theorem aselectn_no_match_raises:
  assumes "tables (connection w) table = Some t"
    and "set col_names \<subseteq> set (columns t)"
    and "fst ` set kwargs \<subseteq> set (columns t)"
    and "filter (matches kwargs) (rows t) = []"
  shows "aselectn (mem_driver raw file) table col_names True kwargs w = (Inl TypeError, w)
       \<and> db_aselectn (mem_driver raw file) table col_names True kwargs w = (Inl TypeError, w)"
  using assms
  by (simp add: aselectn_def db_aselectn_def op_defs mem_defs conditions_of_ok getattrs_c_ok
      fetchone_def tuple_def)

text \<open>\<^verbatim>\<open>aselectn("users", ["name", "age"], id=2)\<close> when the only row has \<^verbatim>\<open>id\<close> 1,
  next to \<open>aselect\<close> on the same filter.\<close>

theorem aselectn_no_match_raises_witness:
  "filter (matches [(''id'', PyInt 2)]) (rows (users_table [users_row 1 ''a'' 1])) = []
   \<and> aselectn (mem_driver no_raw (users_store [])) ''users'' [''name'', ''age''] True
        [(''id'', PyInt 2)] (users_world [users_row 1 ''a'' 1]) =
      (Inl TypeError, users_world [users_row 1 ''a'' 1])
   \<and> db_aselectn (mem_driver no_raw (users_store [])) ''users'' [''name'', ''age''] True
        [(''id'', PyInt 2)] (users_world [users_row 1 ''a'' 1]) =
      (Inl TypeError, users_world [users_row 1 ''a'' 1])"
proof -
  let ?rs = "[users_row 1 ''a'' 1]"
  have t: "tables (connection (users_world ?rs)) ''users'' = Some (users_table ?rs)"
    by (simp add: users_defs)
  have c: "set [''name'', ''age''] \<subseteq> set (columns (users_table ?rs))"
    by (simp add: users_defs)
  have k: "fst ` set [(''id'', PyInt 2)] \<subseteq> set (columns (users_table ?rs))"
    by (simp add: users_defs)
  have m: "filter (matches [(''id'', PyInt 2)]) (rows (users_table ?rs)) = []"
    by (simp add: users_defs matches_def)
  from m aselectn_no_match_raises[OF t c k m, of no_raw "users_store []"]
  show ?thesis by blast
qed

section \<open>Raw SQL\<close>

text \<open>
  C7, at the input where the code departs from it. \<^verbatim>\<open>query("DELETE FROM users")\<close>:
  the statement returns no rows, yet the object \<^verbatim>\<open>execute\<close> hands back is true and has
  \<^verbatim>\<open>fetchall\<close>, so the test in \<open>query\<close> passes and \<^verbatim>\<open>fetchall()\<close> raises
  ResourceClosedError to the caller, after the rows are gone; nothing is returned.
  \<^verbatim>\<open>query("SELECT 1")\<close> returns its row. Both modules.
\<close>

theorem query_without_rows_raises:
  "query (mem_driver users_raw (users_store [])) ''DELETE FROM users''
     (users_world [users_row 1 ''a'' 1]) =
     (Inl ResourceClosedError,
      \<lparr>connection = (users_store [])
         \<lparr>snapshot := Some (tables (users_store [users_row 1 ''a'' 1]))\<rparr>,
       stderr = []\<rparr>)
   \<and> db_query (mem_driver users_raw (users_store [])) ''DELETE FROM users''
     (users_world [users_row 1 ''a'' 1]) =
     (Inl ResourceClosedError,
      \<lparr>connection = (users_store [])
         \<lparr>snapshot := Some (tables (users_store [users_row 1 ''a'' 1]))\<rparr>,
       stderr = []\<rparr>)
   \<and> query (mem_driver users_raw (users_store [])) ''SELECT 1'' (users_world []) =
     (Inr (RRows [[PyInt 1]]), users_world [])"
  by (simp add: query_def db_query_def op_defs mem_defs users_defs matches_def fetchall_def)

text \<open>
  What \<open>query\<close> does with whatever \<^verbatim>\<open>execute\<close> returns, for every driver: the rows
  of \<^verbatim>\<open>fetchall()\<close> (or its exception) if the object is true and has the attribute
  \<^verbatim>\<open>fetchall\<close>, and None otherwise.
\<close>

theorem query_rows_or_None:
  assumes "conn_execute D (TextClause sql) (connection w) = (Inr res, s')"
  shows "query D sql w =
           (if truthy res \<and> has_fetchall res
            then (case fetched res of
                    Inl e \<Rightarrow> (Inl e, w\<lparr>connection := s'\<rparr>)
                  | Inr rs \<Rightarrow> (Inr (RRows rs), w\<lparr>connection := s'\<rparr>))
            else (Inr RNone, w\<lparr>connection := s'\<rparr>))
       \<and> db_query D sql w = query D sql w"
  using assms
  by (auto simp add: query_def db_query_def op_defs fetchall_def split: sum.splits)

theorem query_rows_or_None_witness:
  "conn_execute (mem_driver users_raw (users_store [])) (TextClause ''SELECT 1'')
       (connection (users_world [])) = (Inr (rows_result [[PyInt 1]]), users_store [])
   \<and> query (mem_driver users_raw (users_store [])) ''SELECT 1'' (users_world []) =
       (Inr (RRows [[PyInt 1]]), users_world [])"
proof -
  let ?M = "mem_driver users_raw (users_store [])"
  have e: "conn_execute ?M (TextClause ''SELECT 1'') (connection (users_world [])) =
      (Inr (rows_result [[PyInt 1]]), users_store [])"
    by (simp add: mem_defs users_defs)
  have "query ?M ''SELECT 1'' (users_world []) = (Inr (RRows [[PyInt 1]]), users_world [])"
    using query_rows_or_None[OF e] by (simp add: rows_result_def users_world_def)
  with e show ?thesis by (rule conjI)
qed

section \<open>Atomic and non-atomic updates\<close>

text \<open>
  C4, as the code has it. An \<open>update_row\<close> of \<^verbatim>\<open>src/pymlops/db/interface.py\<close> on a table
  of the store, with its filter built, called while no transaction is open on the
  connection, whose execution raises \<open>e\<close>: the UPDATE is rejected (a constraint violation,
  say) or its commit fails. With \<open>atomic\<close> the call returns None and leaves the state
  exactly as it was before the call, but for the line on \<open>stderr\<close>; without \<open>atomic\<close> it
  raises \<open>e\<close>.
\<close>

theorem atomic_update_violation_restores:
  assumes "tables (connection w) table = Some t"
    and "conditions_of (columns t) kwargs = Inr conditions"
    and "snapshot (connection w) = None"
    and "seq (on_connection (conn_execute (mem_driver raw file) (Update table data conditions)))
           (\<lambda>_. on_connection (conn_commit (mem_driver raw file))) w = (Inl e, w1)"
  shows "update_row (mem_driver raw file) table data True kwargs w =
           (Inr RNone, w\<lparr>stderr := stderr w @ [e]\<rparr>)
       \<and> fst (update_row (mem_driver raw file) table data False kwargs w) = Inl e"
  using assms
  by (auto simp add: update_row_def op_defs mem_defs print_caught_def global_name_def
      globals_def split: if_splits sum.splits option.splits)

text \<open>
  \<^verbatim>\<open>users\<close> holds \<^verbatim>\<open>(1, "a", 1)\<close>. Ages must not be negative:
  \<^verbatim>\<open>update_row("users", {"age": -1}, atomic=True, id=1)\<close> returns None, logs the
  IntegrityError and leaves the row; with \<^verbatim>\<open>atomic=False\<close> it raises IntegrityError.
  When the commit fails, \<^verbatim>\<open>update_row("users", {"age": 5}, atomic=True, id=1)\<close> has
  changed the row before the commit raises, and the rollback puts \<^verbatim>\<open>(1, "a", 1)\<close> back.
\<close>

theorem atomic_update_violation_restores_witness:
  "fst (seq (on_connection (conn_execute (mem_driver no_raw (users_store []))
              (Update ''users'' [(''age'', PyInt (- 1))] [(''id'', PyInt 1)])))
          (\<lambda>_. on_connection (conn_commit (mem_driver no_raw (users_store []))))
          (users_world [users_row 1 ''a'' 1])) = Inl IntegrityError
   \<and> update_row (mem_driver no_raw (users_store [])) ''users'' [(''age'', PyInt (- 1))] True
        [(''id'', PyInt 1)] (users_world [users_row 1 ''a'' 1]) =
      (Inr RNone, (users_world [users_row 1 ''a'' 1])\<lparr>stderr := [IntegrityError]\<rparr>)
   \<and> fst (update_row (mem_driver no_raw (users_store [])) ''users'' [(''age'', PyInt (- 1))] False
        [(''id'', PyInt 1)] (users_world [users_row 1 ''a'' 1])) = Inl IntegrityError
   \<and> fst (seq (on_connection (conn_execute (mem_driver no_raw (users_store []))
              (Update ''users'' [(''age'', PyInt 5)] [(''id'', PyInt 1)])))
          (\<lambda>_. on_connection (conn_commit (mem_driver no_raw (users_store []))))
          (full_disk_world [users_row 1 ''a'' 1])) = Inl OperationalError
   \<and> update_row (mem_driver no_raw (users_store [])) ''users'' [(''age'', PyInt 5)] True
        [(''id'', PyInt 1)] (full_disk_world [users_row 1 ''a'' 1]) =
      (Inr RNone, (full_disk_world [users_row 1 ''a'' 1])\<lparr>stderr := [OperationalError]\<rparr>)"
proof -
  let ?M = "mem_driver no_raw (users_store [])"
  let ?rs = "[users_row 1 ''a'' 1]"
  let ?body = "\<lambda>data. seq (on_connection (conn_execute ?M (Update ''users'' data [(''id'', PyInt 1)])))
      (\<lambda>_. on_connection (conn_commit ?M))"
  have c: "conditions_of (columns (users_table ?rs)) [(''id'', PyInt 1)] = Inr [(''id'', PyInt 1)]"
    by (simp add: users_defs getattr_c_def)
  have t: "tables (connection (users_world ?rs)) ''users'' = Some (users_table ?rs)"
    by (simp add: users_defs)
  have s: "snapshot (connection (users_world ?rs)) = None"
    by (simp add: users_defs)
  have v: "fst (?body [(''age'', PyInt (- 1))] (users_world ?rs)) = Inl IntegrityError"
    by (simp add: op_defs mem_defs users_defs matches_def assign_def)
  then have v': "?body [(''age'', PyInt (- 1))] (users_world ?rs) =
      (Inl IntegrityError, snd (?body [(''age'', PyInt (- 1))] (users_world ?rs)))"
    by (simp add: prod_eq_iff)
  note th = atomic_update_violation_restores[OF t c s v']
  have a: "update_row ?M ''users'' [(''age'', PyInt (- 1))] True [(''id'', PyInt 1)]
        (users_world ?rs) = (Inr RNone, (users_world ?rs)\<lparr>stderr := [IntegrityError]\<rparr>)"
    using th by (simp add: users_world_def)
  have n: "fst (update_row ?M ''users'' [(''age'', PyInt (- 1))] False [(''id'', PyInt 1)]
        (users_world ?rs)) = Inl IntegrityError"
    using th by simp
  have t2: "tables (connection (full_disk_world ?rs)) ''users'' = Some (users_table ?rs)"
    by (simp add: users_defs)
  have s2: "snapshot (connection (full_disk_world ?rs)) = None"
    by (simp add: users_defs)
  have f: "fst (?body [(''age'', PyInt 5)] (full_disk_world ?rs)) = Inl OperationalError"
    by (simp add: op_defs mem_defs users_defs matches_def assign_def)
  then have f': "?body [(''age'', PyInt 5)] (full_disk_world ?rs) =
      (Inl OperationalError, snd (?body [(''age'', PyInt 5)] (full_disk_world ?rs)))"
    by (simp add: prod_eq_iff)
  note th2 = atomic_update_violation_restores[OF t2 c s2 f']
  have r: "update_row ?M ''users'' [(''age'', PyInt 5)] True [(''id'', PyInt 1)]
        (full_disk_world ?rs) = (Inr RNone, (full_disk_world ?rs)\<lparr>stderr := [OperationalError]\<rparr>)"
    using th2 by (simp add: full_disk_world_def)
  from v a n f r show ?thesis by blast
qed

text \<open>
  Where C4 as stated fails: \<^verbatim>\<open>query("UPDATE users SET age = 5")\<close> runs its statement and
  raises from \<^verbatim>\<open>fetchall()\<close> without a commit, so the row \<^verbatim>\<open>(1, "a", 5)\<close> is pending on the
  connection. The atomic \<^verbatim>\<open>update_row("users", {"age": -1}, atomic=True, id=1)\<close> that
  follows cannot begin its transaction; its handler's rollback discards the pending change
  as well, and the row is \<^verbatim>\<open>(1, "a", 1)\<close> after the call where it was \<^verbatim>\<open>(1, "a", 5)\<close> before.
\<close>

theorem atomic_update_violation_restores_counterexample:
  "fst (query (mem_driver users_raw (users_store [])) ''UPDATE users SET age = 5''
          (users_world [users_row 1 ''a'' 1])) = Inl ResourceClosedError
   \<and> fst (aselect (mem_driver users_raw (users_store [])) ''users'' ''age'' True [(''id'', PyInt 1)]
          (snd (query (mem_driver users_raw (users_store [])) ''UPDATE users SET age = 5''
                  (users_world [users_row 1 ''a'' 1])))) = Inr (RTuple [PyInt 5])
   \<and> fst (update_row (mem_driver users_raw (users_store [])) ''users'' [(''age'', PyInt (- 1))]
          True [(''id'', PyInt 1)]
          (snd (query (mem_driver users_raw (users_store [])) ''UPDATE users SET age = 5''
                  (users_world [users_row 1 ''a'' 1])))) = Inr RNone
   \<and> fst (aselect (mem_driver users_raw (users_store [])) ''users'' ''age'' True [(''id'', PyInt 1)]
          (snd (update_row (mem_driver users_raw (users_store [])) ''users''
                  [(''age'', PyInt (- 1))] True [(''id'', PyInt 1)]
                  (snd (query (mem_driver users_raw (users_store [])) ''UPDATE users SET age = 5''
                          (users_world [users_row 1 ''a'' 1])))))) = Inr (RTuple [PyInt 1])"
  by (simp add: query_def update_row_def aselect_def op_defs mem_defs users_defs matches_def
      assign_def getattr_c_def fetchall_def fetchone_def row_truth_def tuple_def
      print_caught_def global_name_def globals_def)

text \<open>
  C3, at the input where \<^verbatim>\<open>src/db/interface.py\<close> departs from it. The same call as
  above, \<^verbatim>\<open>update_row("users", {"age": -1}, atomic=True, id=1)\<close>: the handler of
  \<^verbatim>\<open>src/db/interface.py\<close> looks up \<^verbatim>\<open>sys\<close>, which the module never imports, so the
  call raises NameError to its caller, writes nothing to \<open>stderr\<close> and leaves the
  transaction open; the method of \<^verbatim>\<open>src/pymlops/db/interface.py\<close> returns None, with
  the error on \<open>stderr\<close> and the transaction rolled back.
\<close>

theorem db_update_row_atomic_raises_NameError:
  "db_update_row (mem_driver no_raw (users_store [])) ''users'' [(''age'', PyInt (- 1))] True
     [(''id'', PyInt 1)] (users_world [users_row 1 ''a'' 1]) =
     (Inl (NameError ''sys''),
      \<lparr>connection = (users_store [users_row 1 ''a'' 1])
         \<lparr>snapshot := Some (tables (users_store [users_row 1 ''a'' 1]))\<rparr>,
       stderr = []\<rparr>)
   \<and> update_row (mem_driver no_raw (users_store [])) ''users'' [(''age'', PyInt (- 1))] True
       [(''id'', PyInt 1)] (users_world [users_row 1 ''a'' 1]) =
     (Inr RNone, \<lparr>connection = users_store [users_row 1 ''a'' 1], stderr = [IntegrityError]\<rparr>)"
  by (simp add: db_update_row_def update_row_def op_defs mem_defs users_defs matches_def
      assign_def getattr_c_def print_caught_def global_name_def db_globals_def globals_def)

text \<open>
  The atomic path of \<^verbatim>\<open>src/pymlops/db/interface.py\<close>, for every driver whose rollback
  does not itself raise: once the table is reflected and the filter built, the call
  returns None whatever the three steps inside the \<^verbatim>\<open>try\<close> do, and \<open>stderr\<close> is as
  before or longer by the one exception caught.
\<close>

theorem update_row_atomic_never_raises:
  assumes r: "reflect D table (connection w) = Inr c"
    and k: "conditions_of c kwargs = Inr conditions"
    and rb: "\<forall>s. fst (conn_rollback D s) = Inr ()"
  shows "fst (update_row D table data True kwargs w) = Inr RNone
       \<and> (stderr (snd (update_row D table data True kwargs w)) = stderr w
          \<or> (\<exists>e. stderr (snd (update_row D table data True kwargs w)) = stderr w @ [e]))"
proof -
  define body where
    "body = seq (on_connection (conn_execute D (TextClause ''BEGIN EXCLUSIVE''))) (\<lambda>_.
            seq (on_connection (conn_execute D (Update table data conditions))) (\<lambda>_.
              on_connection (conn_commit D)))"
  define handler where
    "handler = (\<lambda>e. seq (print_caught globals e) (\<lambda>_. on_connection (conn_rollback D)))"
  have unfold: "update_row D table data True kwargs w =
      seq (try_except body handler) (\<lambda>_. ret RNone) w"
    using r k by (simp add: update_row_def body_def handler_def op_defs)
  have quiet: "stderr (snd (body w)) = stderr w"
    by (simp add: body_def op_defs split: prod.splits sum.splits)
  have handled: "fst (handler e w1) = Inr () \<and> stderr (snd (handler e w1)) = stderr w1 @ [e]"
    for e w1
  proof -
    obtain x s' where "conn_rollback D (connection w1) = (x, s')"
      by (cases "conn_rollback D (connection w1)")
    moreover from this rb have "x = Inr ()"
      by (metis fst_conv)
    ultimately show ?thesis
      by (simp add: handler_def print_caught_def global_name_def globals_def op_defs)
  qed
  obtain r1 w1 where b: "body w = (r1, w1)"
    by (cases "body w")
  show ?thesis
  proof (cases r1)
    case (Inl e)
    obtain x w2 where h: "handler e w1 = (x, w2)"
      by (cases "handler e w1")
    with handled[of e w1] have "x = Inr ()" and "stderr w2 = stderr w1 @ [e]"
      by simp_all
    moreover from quiet b have "stderr w1 = stderr w"
      by simp
    ultimately show ?thesis
      using b Inl h by (simp add: unfold seq_def try_except_def ret_def)
  next
    case (Inr u)
    with quiet b show ?thesis
      by (simp add: unfold seq_def try_except_def ret_def)
  qed
qed

text \<open>The rejected update of the scenario, on the store's driver.\<close>

theorem update_row_atomic_never_raises_witness:
  "reflect (mem_driver no_raw (users_store [])) ''users''
       (connection (users_world [users_row 1 ''a'' 1])) = Inr [''id'', ''name'', ''age'']
   \<and> conditions_of [''id'', ''name'', ''age''] [(''id'', PyInt 1)] = Inr [(''id'', PyInt 1)]
   \<and> fst (update_row (mem_driver no_raw (users_store [])) ''users'' [(''age'', PyInt (- 1))] True
        [(''id'', PyInt 1)] (users_world [users_row 1 ''a'' 1])) = Inr RNone"
proof -
  let ?M = "mem_driver no_raw (users_store [])"
  have r: "reflect ?M ''users'' (connection (users_world [users_row 1 ''a'' 1])) =
      Inr [''id'', ''name'', ''age'']"
    by (simp add: mem_defs users_defs)
  have k: "conditions_of [''id'', ''name'', ''age''] [(''id'', PyInt 1)] = Inr [(''id'', PyInt 1)]"
    by (simp add: getattr_c_def)
  have rb: "\<forall>s. fst (conn_rollback ?M s) = Inr ()"
    by (simp add: mem_defs split: option.splits)
  from r k update_row_atomic_never_raises[OF r k rb, of "[(''age'', PyInt (- 1))]"]
  show ?thesis by blast
qed

section \<open>Construction\<close>

text \<open>
  C8, as the code has it. When the connection is established, \<^verbatim>\<open>__init__\<close> of
  \<^verbatim>\<open>src/pymlops/db/interface.py\<close> applies the four tuning statements, once each and in
  their order, for every connection string of the sqlite dialect, and applies none for any
  other dialect: such a string gets no statement at all, unless it contains the text
  \<^verbatim>\<open>sqlite\<close>, and then the first statement is rejected and construction raises.
  \<^verbatim>\<open>__init__\<close> of \<^verbatim>\<open>src/db/interface.py\<close> applies none for any dialect.
\<close>

theorem init_tunes_sqlite:
  assumes "refuses file cs = None"
  shows "init (mem_driver raw file) cs args =
     (if dialect_name cs = ''sqlite''
      then (Inr (), Some \<lparr>connection =
              file\<lparr>dialect := ''sqlite'', directives := directives file @ tuning\<rparr>,
              stderr = []\<rparr>)
      else if sublist ''sqlite'' cs
      then (Inl ProgrammingError,
            Some \<lparr>connection = file\<lparr>dialect := dialect_name cs\<rparr>, stderr = []\<rparr>)
      else (Inr (), Some \<lparr>connection = file\<lparr>dialect := dialect_name cs\<rparr>, stderr = []\<rparr>))
   \<and> db_init (mem_driver raw file) cs =
       (Inr (), Some \<lparr>connection = file\<lparr>dialect := dialect_name cs\<rparr>, stderr = []\<rparr>)"
proof (cases "dialect_name cs = ''sqlite''")
  case True
  then have "sublist ''sqlite'' cs" by (rule dialect_sqlite)
  with True assms show ?thesis
    by (simp add: init_def db_init_def op_defs mem_driver_def mem_connect_def
        mem_cursor_execute_def tuning_def Let_def)
next
  case False
  with assms show ?thesis
    by (simp add: init_def db_init_def op_defs mem_driver_def mem_connect_def
        mem_cursor_execute_def Let_def)
qed

theorem init_tunes_sqlite_witness:
  "refuses (users_store []) ''sqlite:///bench.db'' = None
   \<and> dialect_name ''sqlite:///bench.db'' = ''sqlite''
   \<and> init (mem_driver no_raw (users_store [])) ''sqlite:///bench.db'' [] =
       (Inr (), Some \<lparr>connection = (users_store [])\<lparr>directives := tuning\<rparr>, stderr = []\<rparr>)"
proof -
  have r: "refuses (users_store []) ''sqlite:///bench.db'' = None"
    by (simp add: users_store_def)
  have d: "dialect_name ''sqlite:///bench.db'' = ''sqlite''"
    by (simp add: dialect_name_def)
  from init_tunes_sqlite[OF r, of no_raw "[]"] d
  have "init (mem_driver no_raw (users_store [])) ''sqlite:///bench.db'' [] =
       (Inr (), Some \<lparr>connection = (users_store [])\<lparr>directives := tuning\<rparr>, stderr = []\<rparr>)"
    by (simp add: users_store_def)
  with r d show ?thesis by blast
qed

text \<open>
  Where C8 as stated fails: for a connection string of the sqlite dialect the constructor
  of \<^verbatim>\<open>src/db/interface.py\<close> applies no tuning statement.
\<close>

theorem init_tunes_sqlite_counterexample:
  "dialect_name ''sqlite:///bench.db'' = ''sqlite''
   \<and> db_init (mem_driver no_raw (users_store [])) ''sqlite:///bench.db'' =
       (Inr (), Some \<lparr>connection = users_store [], stderr = []\<rparr>)
   \<and> directives (users_store []) = []"
  by (simp add: db_init_def mem_driver_def mem_connect_def dialect_name_def users_store_def)

section \<open>The two modules side by side\<close>

text \<open>
  C9, as the code has it. For every driver the two modules give the same result and the
  same state in \<open>query\<close>, \<open>prepare_insertion\<close>, \<open>insert_row\<close>, the non-atomic \<open>update_row\<close>,
  \<open>aselect\<close>, \<open>aselectn\<close>, \<open>select_all\<close>, \<open>remove\<close> and \<open>close\<close>; \<open>removen\<close> leaves the same
  state and raises the same errors in both but returns the result object in
  \<^verbatim>\<open>src/db/interface.py\<close> and None in \<^verbatim>\<open>src/pymlops/db/interface.py\<close>; the constructors
  agree (without connect arguments) when the connection string does not contain
  \<^verbatim>\<open>sqlite\<close>.
\<close>

theorem modules_agree:
  "db_query D sql w = query D sql w
   \<and> db_prepare_insertion D table data w = prepare_insertion D table data w
   \<and> db_insert_row D table data w = insert_row D table data w
   \<and> db_update_row D table data False kwargs w = update_row D table data False kwargs w
   \<and> db_aselect D table col_name fetch_one kwargs w = aselect D table col_name fetch_one kwargs w
   \<and> db_aselectn D table col_names fetch_one kwargs w =
       aselectn D table col_names fetch_one kwargs w
   \<and> db_select_all D table w = select_all D table w
   \<and> db_remove D table column_name column_value w = remove D table column_name column_value w
   \<and> db_close D w = close D w
   \<and> snd (db_removen D table kwargs w) = snd (removen D table kwargs w)
   \<and> map_sum id (\<lambda>_. RNone) (fst (db_removen D table kwargs w)) = fst (removen D table kwargs w)
   \<and> (\<not> sublist ''sqlite'' cs \<longrightarrow> db_init D cs = init D cs [])"
  by (auto simp add: db_query_def query_def db_prepare_insertion_def prepare_insertion_def
      db_insert_row_def insert_row_def db_update_row_def update_row_def db_aselect_def aselect_def
      db_aselectn_def aselectn_def db_select_all_def select_all_def db_remove_def remove_def
      db_close_def close_def db_removen_def removen_def db_init_def init_def op_defs Let_def
      split: sum.splits prod.splits)

theorem modules_agree_witness:
  "\<not> sublist ''sqlite'' ''mysql+mysqlconnector://reporter@localhost:3307/swift''
   \<and> db_init (mem_driver no_raw (users_store []))
        ''mysql+mysqlconnector://reporter@localhost:3307/swift'' =
      init (mem_driver no_raw (users_store []))
        ''mysql+mysqlconnector://reporter@localhost:3307/swift'' []
   \<and> db_removen (mem_driver no_raw (users_store [])) ''users'' [(''id'', PyInt 1)]
        (users_world [users_row 1 ''a'' 1]) =
      (Inr (RResult (dml_result 0)), users_world [])
   \<and> removen (mem_driver no_raw (users_store [])) ''users'' [(''id'', PyInt 1)]
        (users_world [users_row 1 ''a'' 1]) =
      (Inr RNone, snd (db_removen (mem_driver no_raw (users_store [])) ''users'' [(''id'', PyInt 1)]
        (users_world [users_row 1 ''a'' 1])))"
proof -
  let ?M = "mem_driver no_raw (users_store [])"
  let ?url = "''mysql+mysqlconnector://reporter@localhost:3307/swift''"
  let ?w = "users_world [users_row 1 ''a'' 1]"
  have n: "\<not> sublist ''sqlite'' ?url"
    by (simp add: sublist_code(3))
  note th = modules_agree[of ?M _ ?w "''users''" _ "[(''id'', PyInt 1)]" _ _ _ _ _ ?url]
  from th n have i: "db_init ?M ?url = init ?M ?url []"
    by blast
  have d: "db_removen ?M ''users'' [(''id'', PyInt 1)] ?w = (Inr (RResult (dml_result 0)), users_world [])"
    by (simp add: db_removen_def op_defs mem_defs users_defs matches_def getattr_c_def)
  from th have "snd (removen ?M ''users'' [(''id'', PyInt 1)] ?w) =
        snd (db_removen ?M ''users'' [(''id'', PyInt 1)] ?w)"
      and "fst (removen ?M ''users'' [(''id'', PyInt 1)] ?w) =
        map_sum id (\<lambda>_. RNone) (fst (db_removen ?M ''users'' [(''id'', PyInt 1)] ?w))"
    by simp_all
  with d have r: "removen ?M ''users'' [(''id'', PyInt 1)] ?w =
      (Inr RNone, snd (db_removen ?M ''users'' [(''id'', PyInt 1)] ?w))"
    by (simp add: prod_eq_iff)
  from n i d r show ?thesis by blast
qed

text \<open>
  Where C9 as stated fails: \<^verbatim>\<open>removen("users", id=1)\<close> returns the result object in one
  module and None in the other, and for a sqlite connection string one constructor sends
  the tuning statements and the other does not.
\<close>

theorem modules_agree_counterexample:
  "fst (db_removen (mem_driver no_raw (users_store [])) ''users'' [(''id'', PyInt 1)]
          (users_world [users_row 1 ''a'' 1])) = Inr (RResult (dml_result 0))
   \<and> fst (removen (mem_driver no_raw (users_store [])) ''users'' [(''id'', PyInt 1)]
          (users_world [users_row 1 ''a'' 1])) = Inr RNone
   \<and> init (mem_driver no_raw (users_store [])) ''sqlite:///bench.db'' [] =
       (Inr (), Some \<lparr>connection = (users_store [])\<lparr>directives := tuning\<rparr>, stderr = []\<rparr>)
   \<and> db_init (mem_driver no_raw (users_store [])) ''sqlite:///bench.db'' =
       (Inr (), Some \<lparr>connection = users_store [], stderr = []\<rparr>)
   \<and> directives (users_store []) = []"
  by (simp add: db_removen_def removen_def init_def db_init_def op_defs mem_defs users_defs
      matches_def getattr_c_def tuning_def Let_def sublist_code(3) dialect_name_def)

end
